theory Spec2Isabelle
  imports Complex_Main "HOL-Library.AList"
begin

section \<open>Shared numeric helpers\<close>

text \<open>
  The three scripts (\<^verbatim>\<open>synth.py\<close>, \<^verbatim>\<open>wayDown.py\<close>, \<^verbatim>\<open>afterlife.py\<close>) compute on
  NumPy floats. The embedding idealises every float (32 or 64 bit) as a \<^typ>\<open>real\<close>:
  rounding is not modelled, so a statement below is about the exact arithmetic the
  code approximates. Arrays are lists, dictionaries that are iterated are association
  lists in insertion order, exceptions are values of \<open>error\<close>.
\<close>

datatype error = IndexError | KeyError | AttributeError | ZeroDivisionError | SystemExit

text \<open>Python's \<^verbatim>\<open>x % m\<close> on floats, used only with the positive modulus \<open>2 * pi\<close>.\<close>

definition py_mod :: "real \<Rightarrow> real \<Rightarrow> real" where
  "py_mod x m = x - m * of_int \<lfloor>x / m\<rfloor>"

text \<open>\<^verbatim>\<open>np.clip(x, lo, hi)\<close> on one element.\<close>

definition clip :: "real \<Rightarrow> real \<Rightarrow> real \<Rightarrow> real" where
  "clip x lo hi = min (max x lo) hi"

text \<open>\<^verbatim>\<open>np.arange(n)\<close> as floats.\<close>

definition arange :: "nat \<Rightarrow> real list" where
  "arange n = map real [0..<n]"

text \<open>
  Python's \<^verbatim>\<open>int(x)\<close> on a float: truncation toward zero. The argument is the exact
  product here; for the durations of the script (0.01 and 0.05 seconds) the float
  product is exact as well, 441 and 2205.
\<close>

definition py_int :: "real \<Rightarrow> int" where
  "py_int x = (if 0 \<le> x then \<lfloor>x\<rfloor> else \<lceil>x\<rceil>)"

text \<open>
  A key event of the input library: \<^verbatim>\<open>Key.esc\<close>, another special key (no \<^verbatim>\<open>char\<close>
  attribute), or a key code whose \<^verbatim>\<open>char\<close> is a character or \<^verbatim>\<open>None\<close>.
  Characters are code points below 256.
\<close>

datatype key = Key_esc | Key_special | KeyCode "char option"

section \<open>synth.py: the performance mode\<close>

definition SAMPLE_RATE :: real where
  "SAMPLE_RATE = 44100"

definition BLOCK_SIZE :: nat where
  "BLOCK_SIZE = 256"

definition ATTACK_TIME :: real where
  "ATTACK_TIME = 0.01"

definition RELEASE_TIME :: real where
  "RELEASE_TIME = 0.05"

definition MASTER_GAIN :: real where
  "MASTER_GAIN = 0.4"

definition MIN_OCTAVE_OFFSET :: int where
  "MIN_OCTAVE_OFFSET = - 2"

definition MAX_OCTAVE_OFFSET :: int where
  "MAX_OCTAVE_OFFSET = 2"

text \<open>\<^verbatim>\<open>bank_scales\<close> as first written (seven empty banks) and as filled in.\<close>

definition bank_scales_unfilled :: "char \<rightharpoonup> int list" where
  "bank_scales_unfilled = map_of
     [(CHR ''a'', []), (CHR ''w'', []), (CHR ''s'', []), (CHR ''e'', []),
      (CHR ''d'', []), (CHR ''r'', []), (CHR ''f'', [])]"

definition bank_scales :: "char \<rightharpoonup> int list" where
  "bank_scales = map_of
     [(CHR ''a'', [58, 60, 62, 63, 65, 67, 69]),
      (CHR ''w'', [60, 62, 63, 65, 67, 69, 70]),
      (CHR ''s'', [62, 63, 65, 67, 69, 70, 72]),
      (CHR ''e'', [63, 65, 67, 69, 70, 72, 74]),
      (CHR ''d'', [65, 67, 69, 70, 72, 74, 75]),
      (CHR ''r'', [67, 69, 70, 72, 74, 75, 77]),
      (CHR ''f'', [69, 70, 72, 74, 75, 77, 79])]"

definition BANK_KEYS :: "char set" where
  "BANK_KEYS = {CHR ''a'', CHR ''w'', CHR ''s'', CHR ''e'', CHR ''d'', CHR ''r'', CHR ''f''}"

definition PLAYABLE_KEY_TO_DEGREE :: "char \<rightharpoonup> nat" where
  "PLAYABLE_KEY_TO_DEGREE = map_of
     [(CHR ''j'', 0), (CHR ''i'', 1), (CHR ''k'', 2), (CHR ''o'', 3),
      (CHR ''l'', 4), (CHR ''p'', 5), (CHR '';'', 6)]"

definition OCTAVE_DOWN_KEY :: char where
  "OCTAVE_DOWN_KEY = CHR ''v''"

definition OCTAVE_UP_KEY :: char where
  "OCTAVE_UP_KEY = CHR ''b''"

text \<open>
  An entry of \<^verbatim>\<open>active_notes\<close>: the dictionary with the keys \<^verbatim>\<open>phase\<close>,
  \<^verbatim>\<open>env_level\<close> and \<^verbatim>\<open>env_state\<close>. The state is the string the code stores.
\<close>

record voice =
  phase :: real
  env_level :: real
  env_state :: string

text \<open>
  The module's globals. \<^verbatim>\<open>active_notes\<close> is iterated and counted, so it is an
  association list in insertion order; \<^verbatim>\<open>key_to_midis\<close> is only looked up.
\<close>

record synth_state =
  current_bank :: "char option"
  current_octave_offset :: int
  active_notes :: "(int \<times> voice) list"
  key_to_midis :: "char \<rightharpoonup> int list"

definition synth_init :: synth_state where
  "synth_init = \<lparr>current_bank = None, current_octave_offset = 0,
     active_notes = [], key_to_midis = Map.empty\<rparr>"

text \<open>What the handlers print.\<close>

datatype feedback =
    Bank_selected char
  | Octave_shown int
  | No_bank_selected
  | Bank_not_populated char

definition midi_to_freq :: "int \<Rightarrow> real" where
  "midi_to_freq midi = 440 * (2 powr ((of_int midi - 69) / 12))"

text \<open>
  \<^verbatim>\<open>str.lower\<close> on one character below code point 256: the upper-case letters
  (65..90, and 192..222 but 215) move up by 32, which sets the bit of weight 32, clear
  in all of them.
\<close>

definition lower :: "char \<Rightarrow> char" where
  "lower c =
     (let n = (of_char c :: nat)
      in if (65 \<le> n \<and> n \<le> 90) \<or> (192 \<le> n \<and> n \<le> 222 \<and> n \<noteq> 215)
         then (case c of Char b0 b1 b2 b3 b4 b5 b6 b7 \<Rightarrow> Char b0 b1 b2 b3 b4 True b6 b7)
         else c)"

definition add_note_for_key :: "char \<Rightarrow> int \<Rightarrow> synth_state \<Rightarrow> synth_state" where
  "add_note_for_key key_char midi st =
     (let held = (case key_to_midis st key_char of None \<Rightarrow> [] | Some ms \<Rightarrow> ms);
          held' = (if midi \<notin> set held then held @ [midi] else held);
          notes = active_notes st;
          notes' =
            (case map_of notes midi of
               None \<Rightarrow> notes @ [(midi, \<lparr>phase = 0, env_level = 0, env_state = ''attack''\<rparr>)]
             | Some n \<Rightarrow>
                 if env_state n = ''release''
                 then AList.map_entry midi (\<lambda>n. n\<lparr>env_state := ''attack''\<rparr>) notes
                 else notes)
      in st\<lparr>active_notes := notes', key_to_midis := (key_to_midis st)(key_char \<mapsto> held')\<rparr>)"

definition release_notes_for_key :: "char \<Rightarrow> synth_state \<Rightarrow> synth_state" where
  "release_notes_for_key key_char st =
     (let midi_list = (case key_to_midis st key_char of None \<Rightarrow> [] | Some ms \<Rightarrow> ms)
      in st\<lparr>key_to_midis := (key_to_midis st)(key_char := None),
            active_notes :=
              foldl (\<lambda>notes midi. AList.map_entry midi (\<lambda>n. n\<lparr>env_state := ''release''\<rparr>) notes)
                (active_notes st) midi_list\<rparr>)"

text \<open>
  The envelope of one voice over one block: the per-sample vector, the level stored
  back, the state stored back and whether the voice is appended to
  \<^verbatim>\<open>notes_to_remove\<close>. The durations are parameters; the script uses
  \<open>ATTACK_TIME\<close> and \<open>RELEASE_TIME\<close>. Called with \<open>frames > 0\<close> only (see
  \<open>render_note\<close>).
\<close>

definition envelope ::
  "real \<Rightarrow> real \<Rightarrow> nat \<Rightarrow> voice \<Rightarrow> real list \<times> real \<times> string \<times> bool" where
  "envelope attack_time release_time frames n =
     (if env_state n = ''attack'' then
        (let total_samples = max 1 (py_int (attack_time * SAMPLE_RATE));
             step = (1 - env_level n) / of_int total_samples;
             env_vec = map (\<lambda>i. clip (env_level n + step * i) 0 1) (arange frames);
             env_level_end = last env_vec
         in if env_level_end \<ge> 0.999
            then (replicate frames 1, 1, ''sustain'', False)
            else (env_vec, env_level_end, ''attack'', False))
      else if env_state n = ''sustain'' then
        (replicate frames (env_level n), env_level n, ''sustain'', False)
      else if env_state n = ''release'' then
        (let total_samples = max 1 (py_int (release_time * SAMPLE_RATE));
             step = (0 - env_level n) / of_int total_samples;
             env_vec = map (\<lambda>i. clip (env_level n + step * i) 0 1) (arange frames);
             env_level_end = last env_vec
         in (env_vec, env_level_end, ''release'', env_level_end \<le> 0.001))
      else (replicate frames 0, 0, env_state n, False))"

text \<open>
  The body of the loop over \<^verbatim>\<open>active_notes.items()\<close> for one voice: the enveloped
  wave added to the mix, the voice as stored back, and the removal flag. With
  \<open>frames = 0\<close> every path reads \<^verbatim>\<open>[-1]\<close> of an empty array (\<^verbatim>\<open>env_vec[-1]\<close> or
  \<^verbatim>\<open>phase_array[-1]\<close>) and raises.
\<close>

definition render_note ::
  "real \<Rightarrow> real \<Rightarrow> nat \<Rightarrow> int \<Rightarrow> voice \<Rightarrow> error + (real list \<times> voice \<times> bool)" where
  "render_note attack_time release_time frames midi n =
     (if frames = 0 then Inl IndexError
      else
        (let t = map (\<lambda>i. i / SAMPLE_RATE) (arange frames);
             omega = 2 * pi * midi_to_freq midi;
             phase_array = map (\<lambda>ti. phase n + omega * ti) t;
             wave = map (\<lambda>p. sin p + 0.3 * sin (2 * p)) phase_array
         in case envelope attack_time release_time frames n of
              (env_vec, env_level_end, env_state', remove) \<Rightarrow>
                Inr (map2 (*) wave env_vec,
                     \<lparr>phase = py_mod (last phase_array + omega / SAMPLE_RATE) (2 * pi),
                      env_level = env_level_end, env_state = env_state'\<rparr>,
                     remove)))"

text \<open>
  The loop itself: the mix \<^verbatim>\<open>sig\<close>, the voices as stored back, and
  \<^verbatim>\<open>notes_to_remove\<close> in the order of the appends. (The mix is summed from the
  right here; over the reals the order of the additions does not matter.)
\<close>

fun render_notes ::
  "real \<Rightarrow> real \<Rightarrow> nat \<Rightarrow> (int \<times> voice) list \<Rightarrow> error + (real list \<times> (int \<times> voice) list \<times> int list)" where
  "render_notes attack_time release_time frames [] = Inr (replicate frames 0, [], [])"
| "render_notes attack_time release_time frames ((midi, n) # rest) =
     (case render_note attack_time release_time frames midi n of
        Inl e \<Rightarrow> Inl e
      | Inr (wave, n', remove) \<Rightarrow>
          (case render_notes attack_time release_time frames rest of
             Inl e \<Rightarrow> Inl e
           | Inr (sig, notes', to_remove) \<Rightarrow>
               Inr (map2 (+) wave sig, (midi, n') # notes',
                    (if remove then [midi] else []) @ to_remove)))"

text \<open>
  \<^verbatim>\<open>audio_callback\<close>: the mono block written to \<^verbatim>\<open>outdata\<close> and the new state.
  The voices are counted after the removals.
\<close>

definition audio_callback_with ::
  "real \<Rightarrow> real \<Rightarrow> nat \<Rightarrow> synth_state \<Rightarrow> error + (real list \<times> synth_state)" where
  "audio_callback_with attack_time release_time frames st =
     (if active_notes st = [] then Inr (replicate frames 0, st)
      else
        (case render_notes attack_time release_time frames (active_notes st) of
           Inl e \<Rightarrow> Inl e
         | Inr (sig, notes', notes_to_remove) \<Rightarrow>
             (let remaining = foldl (\<lambda>notes midi. AList.delete midi notes) notes' notes_to_remove;
                  num_active = max 1 (length remaining)
              in Inr (map (\<lambda>x. x * (MASTER_GAIN / real num_active)) sig,
                      st\<lparr>active_notes := remaining\<rparr>))))"

definition audio_callback :: "nat \<Rightarrow> synth_state \<Rightarrow> error + (real list \<times> synth_state)" where
  "audio_callback = audio_callback_with ATTACK_TIME RELEASE_TIME"

text \<open>\<^verbatim>\<open>char in key_to_midis and key_to_midis[char]\<close>: the key holds at least one note.\<close>

definition holding :: "synth_state \<Rightarrow> char \<Rightarrow> bool" where
  "holding st char = (case key_to_midis st char of None \<Rightarrow> False | Some ms \<Rightarrow> ms \<noteq> [])"

text \<open>
  The invariant of the voice store: every stored envelope level lies in \<open>[0, 1]\<close>.
\<close>

definition levels_ok :: "(int \<times> voice) list \<Rightarrow> bool" where
  "levels_ok notes = list_all (\<lambda>(midi, n). 0 \<le> env_level n \<and> env_level n \<le> 1) notes"

text \<open>
  \<^verbatim>\<open>on_press\<close>, with the bank table as a parameter (the script reads the global
  \<open>bank_scales\<close>). The result is what was printed and the new state.
\<close>

definition on_press_with ::
  "(char \<rightharpoonup> int list) \<Rightarrow> key \<Rightarrow> synth_state \<Rightarrow> error + (feedback list \<times> synth_state)" where
  "on_press_with banks k st =
     (case k of
        Key_esc \<Rightarrow> Inr ([], st)
      | Key_special \<Rightarrow> Inr ([], st)
      | KeyCode None \<Rightarrow> Inl AttributeError
      | KeyCode (Some c) \<Rightarrow>
          (let char = lower c in
           if holding st char then Inr ([], st)
           else if char \<in> BANK_KEYS then
             Inr ([Bank_selected char], st\<lparr>current_bank := Some char\<rparr>)
           else if char = OCTAVE_DOWN_KEY then
             (if current_octave_offset st > MIN_OCTAVE_OFFSET
              then Inr ([Octave_shown (current_octave_offset st - 1)],
                        st\<lparr>current_octave_offset := current_octave_offset st - 1\<rparr>)
              else Inr ([], st))
           else if char = OCTAVE_UP_KEY then
             (if current_octave_offset st < MAX_OCTAVE_OFFSET
              then Inr ([Octave_shown (current_octave_offset st + 1)],
                        st\<lparr>current_octave_offset := current_octave_offset st + 1\<rparr>)
              else Inr ([], st))
           else
             (case PLAYABLE_KEY_TO_DEGREE char of
                None \<Rightarrow> Inr ([], st)
              | Some degree_index \<Rightarrow>
                  (case current_bank st of
                     None \<Rightarrow> Inr ([No_bank_selected], st)
                   | Some b \<Rightarrow>
                       (let scale = (case banks b of None \<Rightarrow> [] | Some s \<Rightarrow> s) in
                        if length scale \<noteq> 7 then Inr ([Bank_not_populated b], st)
                        else
                          (let base_midi = scale ! degree_index;
                               midi = base_midi + current_octave_offset st * 12
                           in Inr ([], add_note_for_key char midi st)))))))"

definition on_press :: "key \<Rightarrow> synth_state \<Rightarrow> error + (feedback list \<times> synth_state)" where
  "on_press = on_press_with bank_scales"

definition on_release :: "key \<Rightarrow> synth_state \<Rightarrow> error + synth_state" where
  "on_release k st =
     (case k of
        Key_esc \<Rightarrow> Inr st
      | Key_special \<Rightarrow> Inr st
      | KeyCode None \<Rightarrow> Inl AttributeError
      | KeyCode (Some c) \<Rightarrow>
          (let char = lower c in
           if char \<in> dom PLAYABLE_KEY_TO_DEGREE then Inr (release_notes_for_key char st)
           else Inr st))"

section \<open>wayDown.py and afterlife.py: the arrangement modes\<close>

text \<open>The pitch table, the same in both scripts.\<close>

definition NOTE_FREQUENCIES :: "string \<rightharpoonup> real" where
  "NOTE_FREQUENCIES = map_of
    [
     (''A0'', 27.5), (''A#0'', 29.14), (''B0'', 30.87), (''C1'', 32.7),
     (''C#1'', 34.65), (''D1'', 36.71), (''D#1'', 38.89), (''E1'', 41.2),
     (''F1'', 43.65), (''F#1'', 46.25), (''G1'', 49), (''G#1'', 51.91),
     (''A1'', 55), (''A#1'', 58.27), (''B1'', 61.74), (''C2'', 65.41),
     (''C#2'', 69.3), (''D2'', 73.42), (''D#2'', 77.78), (''E2'', 82.41),
     (''F2'', 87.31), (''F#2'', 92.5), (''G2'', 98), (''G#2'', 103.83),
     (''A2'', 110), (''A#2'', 116.54), (''B2'', 123.47), (''C3'', 130.81),
     (''C#3'', 138.59), (''D3'', 146.83), (''D#3'', 155.56), (''E3'', 164.81),
     (''F3'', 174.61), (''F#3'', 185), (''G3'', 196), (''G#3'', 207.65),
     (''A3'', 220), (''A#3'', 233.08), (''B3'', 246.94), (''C4'', 261.63),
     (''C#4'', 277.18), (''D4'', 293.66), (''D#4'', 311.13), (''E4'', 329.63),
     (''F4'', 349.23), (''F#4'', 369.99), (''G4'', 392), (''G#4'', 415.3),
     (''A4'', 440), (''A#4'', 466.16), (''B4'', 493.88), (''C5'', 523.25),
     (''C#5'', 554.37), (''D5'', 587.33), (''D#5'', 622.25), (''E5'', 659.25),
     (''F5'', 698.46), (''F#5'', 739.99), (''G5'', 783.99), (''G#5'', 830.61),
     (''A5'', 880), (''A#5'', 932.33), (''B5'', 987.77), (''C6'', 1046.5),
     (''C#6'', 1108.73), (''D6'', 1174.66), (''D#6'', 1244.51), (''E6'', 1318.51),
     (''F6'', 1396.91), (''F#6'', 1479.98), (''G6'', 1567.98), (''G#6'', 1661.22),
     (''A6'', 1760), (''A#6'', 1864.66), (''B6'', 1975.53), (''C7'', 2093),
     (''C#7'', 2217.46), (''D7'', 2349.32), (''D#7'', 2489.02), (''E7'', 2637.02),
     (''F7'', 2793.83), (''F#7'', 2959.96), (''G7'', 3135.96), (''G#7'', 3322.44),
     (''A7'', 3520), (''A#7'', 3729.31), (''B7'', 3951.07), (''C8'', 4186.01)]"

text \<open>
  One step of an arrangement: a note name or a list of note names. (The type leaves
  out entries that are neither, which \<^verbatim>\<open>wayDown.py\<close> reports as invalid; no
  arrangement of the scripts has one.)
\<close>

datatype note_data = Single string | Chord "string list"

definition wayDown_NOTES_SNOWMAN :: "note_data list" where
  "wayDown_NOTES_SNOWMAN =
    [Chord [''A#3'', ''C#4'', ''F4''], Chord [''A#3'', ''C#4'', ''F#3''],
     Chord [''A#3'', ''D#3'', ''F#3''], Chord [''A#3'', ''C#4'', ''F4''],
     Chord [''A#3'', ''C#4'', ''F#3''], Chord [''A#3'', ''D#3'', ''F#3'']]"

definition wayDown_NOTES_ELF :: "note_data list" where
  "wayDown_NOTES_ELF =
    [Single ''A#4'', Single ''D#5'', Single ''D#5'', Single ''C#5'', Single ''A#4'',
     Single ''G#4'', Single ''A#4'', Single ''A#4'', Single ''A#4'', Single ''A#4'',
     Single ''A#4'', Single ''A#4'', Single ''D#5'', Single ''D#5'', Single ''C#5'',
     Single ''A#4'', Single ''G#4'', Single ''A#4'', Single ''A#4'', Single ''A#4'',
     Single ''A#4'', Single ''A#4'']"

definition wayDown_NOTES_SANTA :: "note_data list" where
  "wayDown_NOTES_SANTA =
    [Single ''G4'', Single ''C5'', Single ''B4'', Single ''C5'', Single ''D5'',
     Single ''E5'', Single ''E5'', Single ''D5'', Single ''B4'', Single ''A4'',
     Single ''G4'', Single ''E5'', Single ''D5'', Single ''E5'', Single ''F5'',
     Single ''G5'', Single ''C5'', Single ''C5'', Single ''C5'', Single ''A5'',
     Single ''A5'', Single ''G5'', Single ''E5'', Single ''D5'', Single ''C5'',
     Single ''C5'', Single ''D5'', Single ''C5'']"

definition wayDown_NOTES_REINDEER :: "note_data list" where
  "wayDown_NOTES_REINDEER =
    [Single ''A4'']"

definition afterlife_NOTES_SNOWMAN :: "note_data list" where
  "afterlife_NOTES_SNOWMAN =
    [Single ''D4'', Single ''F4'', Single ''D4'', Single ''A3'', Single ''D4'',
     Single ''F4'', Single ''D4'', Single ''A3'', Chord [''D3'', ''A3''],
     Chord [''D3'', ''A3''], Chord [''D3'', ''A3''], Single ''D4'', Single ''F4'',
     Single ''D4'', Single ''A3'', Single ''D4'', Single ''F4'', Single ''D4'',
     Single ''A3'', Chord [''D3'', ''A3''], Chord [''D3'', ''A3''], Chord [''D3'', ''A3''],
     Chord [''C4'', ''F3''], Chord [''D4'', ''G3''], Chord [''D#4'', ''G#3''],
     Single ''D4'', Single ''F4'', Single ''D4'', Single ''A3'', Single ''D4'',
     Single ''F4'', Single ''D4'', Single ''A3'', Chord [''D3'', ''A3''],
     Chord [''D3'', ''A3''], Chord [''D3'', ''A3''], Single ''D4'', Single ''F4'',
     Single ''D4'', Single ''A3'', Single ''D4'', Single ''F4'', Single ''D4'',
     Single ''A3'', Chord [''D3'', ''A3''], Chord [''D3'', ''A3''], Chord [''D3'', ''A3''],
     Chord [''C4'', ''F3''], Chord [''D4'', ''G3''], Chord [''D#4'', ''G#3''],
     Chord [''D#4'', ''G#3''], Chord [''D4'', ''G3''], Chord [''C4'', ''F3'']]"

definition afterlife_NOTES_ELF :: "note_data list" where
  "afterlife_NOTES_ELF =
    [Single ''G4'']"

definition afterlife_NOTES_SANTA :: "note_data list" where
  "afterlife_NOTES_SANTA =
    [Single ''G4'']"

definition afterlife_NOTES_REINDEER :: "note_data list" where
  "afterlife_NOTES_REINDEER =
    [Single ''A4'']"

text \<open>The four instrument objects and the keys of the two dictionaries.\<close>

datatype inst_name = Snowman | Elf | Santa | Reindeer

text \<open>
  The globals of either script: \<^verbatim>\<open>active_freqs\<close> (\<open>None\<close> for an idle instrument),
  \<^verbatim>\<open>phases\<close>, and the mutable fields of the four \<^verbatim>\<open>Instrument\<close> objects.
\<close>

record 'i quartet =
  active_freqs :: "inst_name \<Rightarrow> real list option"
  phases :: "inst_name \<Rightarrow> real list"
  instruments :: "inst_name \<Rightarrow> 'i"

text \<open>
  The fields of an \<^verbatim>\<open>Instrument\<close> object that both scripts have: \<^verbatim>\<open>notes\<close> and
  \<^verbatim>\<open>index\<close>. The object's \<^verbatim>\<open>name\<close> is the \<open>inst_name\<close> it is stored under.
\<close>

record instrument =
  inst_notes :: "note_data list"
  index :: nat

text \<open>\<^verbatim>\<open>[NOTE_FREQUENCIES[n] for n in note_data]\<close>: the first missing name raises.\<close>

fun lookup_freqs :: "string list \<Rightarrow> error + real list" where
  "lookup_freqs [] = Inr []"
| "lookup_freqs (n # ns) =
     (case NOTE_FREQUENCIES n of
        None \<Rightarrow> Inl KeyError
      | Some f \<Rightarrow> (case lookup_freqs ns of Inl e \<Rightarrow> Inl e | Inr fs \<Rightarrow> Inr (f # fs)))"

text \<open>The conversion of an entry into its list of frequencies.\<close>

fun resolve :: "note_data \<Rightarrow> error + real list" where
  "resolve (Single n) = lookup_freqs [n]"
| "resolve (Chord ns) = lookup_freqs ns"

subsection \<open>wayDown.py\<close>

record wayDown_instrument = instrument +
  is_pressed :: bool

type_synonym wayDown_state = "wayDown_instrument quartet"

definition wayDown_KEYMAP :: "char \<rightharpoonup> inst_name" where
  "wayDown_KEYMAP = map_of
     [(CHR ''a'', Snowman), (CHR ''f'', Elf), (CHR ''j'', Santa), (CHR '';'', Reindeer)]"

definition wayDown_notes_of :: "inst_name \<Rightarrow> note_data list" where
  "wayDown_notes_of name =
     (case name of Snowman \<Rightarrow> wayDown_NOTES_SNOWMAN | Elf \<Rightarrow> wayDown_NOTES_ELF
      | Santa \<Rightarrow> wayDown_NOTES_SANTA | Reindeer \<Rightarrow> wayDown_NOTES_REINDEER)"

definition wayDown_init :: wayDown_state where
  "wayDown_init =
     \<lparr>active_freqs = (\<lambda>name. None), phases = (\<lambda>name. []),
      instruments = (\<lambda>name. \<lparr>inst_notes = wayDown_notes_of name, index = 0, is_pressed = False\<rparr>)\<rparr>"

text \<open>
  The oscillators of one instrument over one block: \<^verbatim>\<open>chord_mix\<close> and the phase list
  as stored back. The phase stored is that of the block's last sample,
  \<^verbatim>\<open>ph[-1] % (2 * np.pi)\<close>, which raises on an empty block; \<^verbatim>\<open>phases_list[i]\<close> raises
  when the phase list is shorter than the frequency list.
\<close>

fun wayDown_chord :: "nat \<Rightarrow> real list \<Rightarrow> real list \<Rightarrow> error + (real list \<times> real list)" where
  "wayDown_chord frames [] phases_list = Inr (replicate frames 0, phases_list)"
| "wayDown_chord frames (freq # freqs) [] = Inl IndexError"
| "wayDown_chord frames (freq # freqs) (phase_i # rest) =
     (if frames = 0 then Inl IndexError
      else
        (let phase_inc = (2 * pi * freq) / SAMPLE_RATE;
             ph = map (\<lambda>t. phase_i + phase_inc * t) (arange frames);
             tone = map (\<lambda>p. 0.22 * sin p) ph
         in case wayDown_chord frames freqs rest of
              Inl e \<Rightarrow> Inl e
            | Inr (chord_mix, rest') \<Rightarrow>
                Inr (map2 (+) tone chord_mix, py_mod (last ph) (2 * pi) # rest')))"

text \<open>The loop over \<^verbatim>\<open>active_freqs.items()\<close>, in the dictionary's order.\<close>

fun wayDown_mix ::
  "nat \<Rightarrow> inst_name list \<Rightarrow> wayDown_state \<Rightarrow> error + (real list \<times> wayDown_state)" where
  "wayDown_mix frames [] st = Inr (replicate frames 0, st)"
| "wayDown_mix frames (name # names) st =
     (case active_freqs st name of
        None \<Rightarrow> wayDown_mix frames names st
      | Some freqs \<Rightarrow>
          (case wayDown_chord frames freqs (phases st name) of
             Inl e \<Rightarrow> Inl e
           | Inr (chord_mix, phases_list) \<Rightarrow>
               (case wayDown_mix frames names (st\<lparr>phases := (phases st)(name := phases_list)\<rparr>) of
                  Inl e \<Rightarrow> Inl e
                | Inr (mix, st') \<Rightarrow> Inr (map2 (+) chord_mix mix, st'))))"

definition wayDown_audio_callback ::
  "nat \<Rightarrow> wayDown_state \<Rightarrow> error + (real list \<times> wayDown_state)" where
  "wayDown_audio_callback frames st =
     (case wayDown_mix frames [Snowman, Elf, Santa, Reindeer] st of
        Inl e \<Rightarrow> Inl e
      | Inr (mix, st') \<Rightarrow> Inr (map (\<lambda>x. clip x (- 1) 1) mix, st'))"

definition wayDown_start_note :: "inst_name \<Rightarrow> wayDown_state \<Rightarrow> error + wayDown_state" where
  "wayDown_start_note name st =
     (let inst = instruments st name in
      if is_pressed inst \<or> length (inst_notes inst) = 0 then Inr st
      else if index inst \<ge> length (inst_notes inst) then Inl IndexError
      else
        (case resolve (inst_notes inst ! index inst) of
           Inl e \<Rightarrow> Inl e
         | Inr freqs \<Rightarrow>
             Inr (st\<lparr>instruments := (instruments st)(name := inst\<lparr>is_pressed := True\<rparr>),
                     phases := (phases st)(name := replicate (length freqs) 0),
                     active_freqs := (active_freqs st)(name := Some freqs)\<rparr>)))"

definition wayDown_stop_note :: "inst_name \<Rightarrow> wayDown_state \<Rightarrow> error + wayDown_state" where
  "wayDown_stop_note name st =
     (let inst = instruments st name in
      if \<not> is_pressed inst then Inr st
      else if length (inst_notes inst) = 0 then Inl ZeroDivisionError
      else
        Inr (st\<lparr>active_freqs := (active_freqs st)(name := None),
                phases := (phases st)(name := []),
                instruments := (instruments st)
                  (name := inst\<lparr>is_pressed := False,
                                 index := (index inst + 1) mod length (inst_notes inst)\<rparr>)\<rparr>))"

definition wayDown_on_press :: "key \<Rightarrow> wayDown_state \<Rightarrow> error + wayDown_state" where
  "wayDown_on_press k st =
     (case k of
        Key_esc \<Rightarrow> Inl SystemExit
      | Key_special \<Rightarrow> Inr st
      | KeyCode None \<Rightarrow> Inr st
      | KeyCode (Some ch) \<Rightarrow>
          (case wayDown_KEYMAP ch of None \<Rightarrow> Inr st | Some inst \<Rightarrow> wayDown_start_note inst st))"

definition wayDown_on_release :: "key \<Rightarrow> wayDown_state \<Rightarrow> error + wayDown_state" where
  "wayDown_on_release k st =
     (case k of
        Key_esc \<Rightarrow> Inr st
      | Key_special \<Rightarrow> Inr st
      | KeyCode None \<Rightarrow> Inr st
      | KeyCode (Some ch) \<Rightarrow>
          (case wayDown_KEYMAP ch of None \<Rightarrow> Inr st | Some inst \<Rightarrow> wayDown_stop_note inst st))"

subsection \<open>afterlife.py\<close>

record afterlife_instrument = instrument +
  held_keys :: "char set"

type_synonym afterlife_state = "afterlife_instrument quartet"

definition afterlife_KEYMAP :: "char \<rightharpoonup> inst_name" where
  "afterlife_KEYMAP = map_of
     [(CHR ''e'', Snowman), (CHR ''f'', Snowman), (CHR ''j'', Snowman),
      (CHR ''p'', Elf), (CHR ''o'', Santa), (CHR ''i'', Reindeer)]"

definition afterlife_notes_of :: "inst_name \<Rightarrow> note_data list" where
  "afterlife_notes_of name =
     (case name of Snowman \<Rightarrow> afterlife_NOTES_SNOWMAN | Elf \<Rightarrow> afterlife_NOTES_ELF
      | Santa \<Rightarrow> afterlife_NOTES_SANTA | Reindeer \<Rightarrow> afterlife_NOTES_REINDEER)"

definition afterlife_init :: afterlife_state where
  "afterlife_init =
     \<lparr>active_freqs = (\<lambda>name. None), phases = (\<lambda>name. []),
      instruments = (\<lambda>name. \<lparr>inst_notes = afterlife_notes_of name, index = 0, held_keys = {}\<rparr>)\<rparr>"

text \<open>
  The oscillators of one instrument over one block. The phase stored is
  \<^verbatim>\<open>(ph + inc * frames) % (2 * np.pi)\<close>.
\<close>

fun afterlife_chord :: "nat \<Rightarrow> real list \<Rightarrow> real list \<Rightarrow> error + (real list \<times> real list)" where
  "afterlife_chord frames [] phases_list = Inr (replicate frames 0, phases_list)"
| "afterlife_chord frames (freq # freqs) [] = Inl IndexError"
| "afterlife_chord frames (freq # freqs) (ph # rest) =
     (let inc = (2 * pi * freq) / SAMPLE_RATE;
          wave = map (\<lambda>t. 0.22 * sin (ph + inc * t)) (arange frames)
      in case afterlife_chord frames freqs rest of
           Inl e \<Rightarrow> Inl e
         | Inr (chord_mix, rest') \<Rightarrow>
             Inr (map2 (+) wave chord_mix, py_mod (ph + inc * real frames) (2 * pi) # rest'))"



definition afterlife_start_note :: "inst_name \<Rightarrow> afterlife_state \<Rightarrow> error + afterlife_state" where
  "afterlife_start_note name st =
     (let inst = instruments st name in
      if index inst \<ge> length (inst_notes inst) then Inl IndexError
      else
        (case resolve (inst_notes inst ! index inst) of
           Inl e \<Rightarrow> Inl e
         | Inr freqs \<Rightarrow>
             Inr (st\<lparr>phases := (phases st)(name := replicate (length freqs) 0),
                     active_freqs := (active_freqs st)(name := Some freqs),
                     instruments := (instruments st)
                       (name := inst\<lparr>index := (index inst + 1) mod length (inst_notes inst)\<rparr>)\<rparr>)))"

definition afterlife_stop_note :: "inst_name \<Rightarrow> afterlife_state \<Rightarrow> afterlife_state" where
  "afterlife_stop_note name st =
     st\<lparr>active_freqs := (active_freqs st)(name := None), phases := (phases st)(name := [])\<rparr>"

definition afterlife_on_press :: "key \<Rightarrow> afterlife_state \<Rightarrow> error + afterlife_state" where
  "afterlife_on_press k st =
     (case k of
        Key_esc \<Rightarrow> Inl SystemExit
      | Key_special \<Rightarrow> Inr st
      | KeyCode None \<Rightarrow> Inr st
      | KeyCode (Some ch) \<Rightarrow>
          (case afterlife_KEYMAP ch of
             None \<Rightarrow> Inr st
           | Some name \<Rightarrow>
               (let inst = instruments st name in
                if ch \<notin> held_keys inst
                then afterlife_start_note name
                       (st\<lparr>instruments := (instruments st)
                            (name := inst\<lparr>held_keys := insert ch (held_keys inst)\<rparr>)\<rparr>)
                else Inr st)))"

definition afterlife_on_release :: "key \<Rightarrow> afterlife_state \<Rightarrow> error + afterlife_state" where
  "afterlife_on_release k st =
     (case k of
        Key_esc \<Rightarrow> Inr st
      | Key_special \<Rightarrow> Inr st
      | KeyCode None \<Rightarrow> Inr st
      | KeyCode (Some ch) \<Rightarrow>
          (case afterlife_KEYMAP ch of
             None \<Rightarrow> Inr st
           | Some name \<Rightarrow>
               (let inst = instruments st name;
                    st1 = st\<lparr>instruments := (instruments st)
                            (name := inst\<lparr>held_keys := held_keys inst - {ch}\<rparr>)\<rparr>
                in if held_keys inst - {ch} = {} then Inr (afterlife_stop_note name st1)
                   else Inr st1)))"

section \<open>Event sequences\<close>

text \<open>
  The input library and the audio stream call the handlers one at a time: a key-down,
  a key-up, or a render block of some number of frames. A run applies a list of such
  events in order and stops at the first exception. For \<^verbatim>\<open>synth.py\<close> the run drops
  what the key-down printed and the block that the callback wrote.
\<close>

datatype event = Key_down key | Key_up key | Render nat

definition synth_step :: "(char \<rightharpoonup> int list) \<Rightarrow> event \<Rightarrow> synth_state \<Rightarrow> error + synth_state" where
  "synth_step banks ev st =
     (case ev of
        Key_down k \<Rightarrow> (case on_press_with banks k st of Inl e \<Rightarrow> Inl e | Inr (fb, st') \<Rightarrow> Inr st')
      | Key_up k \<Rightarrow> on_release k st
      | Render frames \<Rightarrow> (case audio_callback frames st of Inl e \<Rightarrow> Inl e | Inr (out, st') \<Rightarrow> Inr st'))"

fun synth_run :: "(char \<rightharpoonup> int list) \<Rightarrow> event list \<Rightarrow> synth_state \<Rightarrow> error + synth_state" where
  "synth_run banks [] st = Inr st"
| "synth_run banks (ev # evs) st =
     (case synth_step banks ev st of Inl e \<Rightarrow> Inl e | Inr st' \<Rightarrow> synth_run banks evs st')"






section \<open>Example states\<close>

text \<open>
  A performance state with bank \<open>a\<close> selected and one voice, pitch 58, half-way
  through its release; and the state of \<^verbatim>\<open>afterlife.py\<close> after a key-down of \<open>e\<close>
  from the start.
\<close>

definition synth_released_58 :: synth_state where
  "synth_released_58 =
     \<lparr>current_bank = Some (CHR ''a''), current_octave_offset = 0,
      active_notes = [(58, \<lparr>phase = 1, env_level = 1 / 2, env_state = ''release''\<rparr>)],
      key_to_midis = Map.empty\<rparr>"

definition afterlife_held_e :: afterlife_state where
  "afterlife_held_e =
     \<lparr>active_freqs = (\<lambda>name. None)(Snowman := Some [293.66]),
      phases = (\<lambda>name. [])(Snowman := [0]),
      instruments = (\<lambda>name. \<lparr>inst_notes = afterlife_notes_of name, index = 0, held_keys = {}\<rparr>)
        (Snowman := \<lparr>inst_notes = afterlife_NOTES_SNOWMAN, index = 1, held_keys = {CHR ''e''}\<rparr>)\<rparr>"

text \<open>
  A performance state whose only voice, pitch 69, is at the end of its release; one
  with three voices just released at full level, each at the crest of its wave; and
  the state of \<^verbatim>\<open>wayDown.py\<close> while \<open>;\<close> holds the reindeer's single note, A4.
\<close>

definition synth_fading_69 :: synth_state where
  "synth_fading_69 =
     \<lparr>current_bank = Some (CHR ''a''), current_octave_offset = 0,
      active_notes = [(69, \<lparr>phase = 0, env_level = 1 / 1000, env_state = ''release''\<rparr>)],
      key_to_midis = Map.empty\<rparr>"

definition synth_three_released :: synth_state where
  "synth_three_released =
     \<lparr>current_bank = Some (CHR ''a''), current_octave_offset = 0,
      active_notes =
        [(60, \<lparr>phase = pi / 2, env_level = 1, env_state = ''release''\<rparr>),
         (62, \<lparr>phase = pi / 2, env_level = 1, env_state = ''release''\<rparr>),
         (65, \<lparr>phase = pi / 2, env_level = 1, env_state = ''release''\<rparr>)],
      key_to_midis = Map.empty\<rparr>"

definition wayDown_held_semicolon :: wayDown_state where
  "wayDown_held_semicolon =
     \<lparr>active_freqs = (\<lambda>name. None)(Reindeer := Some [440]),
      phases = (\<lambda>name. [])(Reindeer := [0]),
      instruments = (\<lambda>name. \<lparr>inst_notes = wayDown_notes_of name, index = 0, is_pressed = False\<rparr>)
        (Reindeer := \<lparr>inst_notes = wayDown_NOTES_REINDEER, index = 0, is_pressed = True\<rparr>)\<rparr>"

text \<open>A performance state whose only voice, pitch 58, was released at full level.\<close>

definition synth_just_released :: synth_state where
  "synth_just_released =
     \<lparr>current_bank = Some (CHR ''a''), current_octave_offset = 0,
      active_notes = [(58, \<lparr>phase = 0, env_level = 1, env_state = ''release''\<rparr>)],
      key_to_midis = Map.empty\<rparr>"

section \<open>Properties of the performance mode: triggers\<close>

lemma map_of_add_note_same:
  "map_of (active_notes (add_note_for_key key_char midi st)) midi =
     (case map_of (active_notes st) midi of
        None \<Rightarrow> Some \<lparr>phase = 0, env_level = 0, env_state = ''attack''\<rparr>
      | Some n \<Rightarrow> Some (if env_state n = ''release'' then n\<lparr>env_state := ''attack''\<rparr> else n))"
  by (simp add: add_note_for_key_def Let_def map_of_map_entry map_add_def split: option.splits)

lemma map_of_add_note_other:
  "m \<noteq> midi \<Longrightarrow>
   map_of (active_notes (add_note_for_key key_char midi st)) m = map_of (active_notes st) m"
  by (simp add: add_note_for_key_def Let_def map_of_map_entry map_add_def split: option.splits)

lemma map_fst_map_entry: "map fst (AList.map_entry k f xs) = map fst xs"
  by (induction xs) auto

lemma keys_add_note_present:
  "map_of (active_notes st) midi = Some n \<Longrightarrow>
   map fst (active_notes (add_note_for_key key_char midi st)) = map fst (active_notes st)"
  by (simp add: add_note_for_key_def Let_def map_fst_map_entry)

lemma playable_key_cases:
  "PLAYABLE_KEY_TO_DEGREE ch = Some d \<Longrightarrow>
   ch \<notin> BANK_KEYS \<and> ch \<noteq> OCTAVE_DOWN_KEY \<and> ch \<noteq> OCTAVE_UP_KEY \<and> d < 7"
  by (auto simp add: PLAYABLE_KEY_TO_DEGREE_def BANK_KEYS_def OCTAVE_DOWN_KEY_def
      OCTAVE_UP_KEY_def split: if_splits)

lemma on_press_playable:
  assumes "PLAYABLE_KEY_TO_DEGREE (lower c) = Some d"
    and "current_bank st = Some b" and "banks b = Some scale" and "length scale = 7"
    and "\<not> holding st (lower c)"
  shows "on_press_with banks (KeyCode (Some c)) st =
           Inr ([], add_note_for_key (lower c) (scale ! d + current_octave_offset st * 12) st)"
  using assms playable_key_cases [OF assms(1)]
  by (simp add: on_press_with_def Let_def)

lemma key_to_midis_add_note:
  "\<not> holding st ch \<Longrightarrow> key_to_midis (add_note_for_key ch midi st) ch = Some [midi]"
  by (auto simp add: holding_def add_note_for_key_def Let_def split: option.splits)

lemma add_note_key_present:
  "midi \<in> fst ` set (active_notes (add_note_for_key ch midi st))"
  using map_of_add_note_same [of ch midi st]
  by (metis (no_types, lifting) domI dom_map_of_conv_image_fst option.case_eq_if)

text \<open>
  Claim C7. A key-down of a playable key that holds no note, with a bank selected
  whose scale has exactly 7 entries, resolves the pitch \<open>scale[d] + 12 * offset\<close> for
  the key's degree index \<open>d\<close> (which is below 7), registers exactly that pitch under
  the (lower-cased) key in \<open>key_to_midis\<close> and leaves a voice for it in
  \<open>active_notes\<close>. The statement holds for every octave offset, so for those in
  \<open>[-2, 2]\<close>. The witness is the bank \<open>[58, 60, 62, 63, 65, 67, 69]\<close> with degree index
  0: offset \<open>-1\<close> gives 46 and offset \<open>+2\<close> gives 82.
\<close>

theorem playable_key_resolves_degree:
  assumes "PLAYABLE_KEY_TO_DEGREE (lower c) = Some d"
    and "current_bank st = Some b" and "banks b = Some scale" and "length scale = 7"
    and "\<not> holding st (lower c)"
  shows "d < 7 \<and>
    (\<exists>st'. on_press_with banks (KeyCode (Some c)) st = Inr ([], st') \<and>
       key_to_midis st' (lower c) = Some [scale ! d + 12 * current_octave_offset st] \<and>
       scale ! d + 12 * current_octave_offset st \<in> fst ` set (active_notes st'))"
  using on_press_playable [of c d st b banks scale] assms playable_key_cases [OF assms(1)]
    key_to_midis_add_note [OF assms(5)] add_note_key_present
  by (simp add: mult.commute)

theorem playable_key_resolves_degree_witness:
  "(\<exists>st'. on_press (KeyCode (Some (CHR ''j'')))
             (synth_init\<lparr>current_bank := Some (CHR ''a''), current_octave_offset := - 1\<rparr>) = Inr ([], st') \<and>
          key_to_midis st' (CHR ''j'') = Some [46] \<and> 46 \<in> fst ` set (active_notes st')) \<and>
   (\<exists>st'. on_press (KeyCode (Some (CHR ''J'')))
             (synth_init\<lparr>current_bank := Some (CHR ''a''), current_octave_offset := 2\<rparr>) = Inr ([], st') \<and>
          key_to_midis st' (CHR ''j'') = Some [82] \<and> 82 \<in> fst ` set (active_notes st'))"
  using playable_key_resolves_degree [of "CHR ''j''" 0
      "synth_init\<lparr>current_bank := Some (CHR ''a''), current_octave_offset := - 1\<rparr>"
      "CHR ''a''" bank_scales "[58, 60, 62, 63, 65, 67, 69]"]
    playable_key_resolves_degree [of "CHR ''J''" 0
      "synth_init\<lparr>current_bank := Some (CHR ''a''), current_octave_offset := 2\<rparr>"
      "CHR ''a''" bank_scales "[58, 60, 62, 63, 65, 67, 69]"]
  by (simp add: on_press_def lower_def PLAYABLE_KEY_TO_DEGREE_def bank_scales_def
      synth_init_def holding_def)

text \<open>
  Claim C8. A key-down of a playable key while no bank is selected, or while the
  selected bank's scale does not have exactly 7 entries, returns without an error
  and leaves the whole state as it was: no voice is created and \<open>key_to_midis\<close> gets
  no entry. When the key holds no note (a true key-down edge) exactly one message
  is printed: that no bank is selected, or that the bank is not populated.
\<close>

theorem incomplete_bank_rejected:
  assumes "PLAYABLE_KEY_TO_DEGREE (lower c) = Some d"
    and "current_bank st = None \<or>
         (\<exists>b. current_bank st = Some b \<and>
              length (case banks b of None \<Rightarrow> [] | Some s \<Rightarrow> s) \<noteq> 7)"
  shows "\<exists>fb. on_press_with banks (KeyCode (Some c)) st = Inr (fb, st) \<and>
           (\<not> holding st (lower c) \<longrightarrow>
              fb = [case current_bank st of None \<Rightarrow> No_bank_selected
                    | Some b \<Rightarrow> Bank_not_populated b])"
  using assms playable_key_cases [OF assms(1)]
  by (auto simp add: on_press_with_def Let_def)

theorem incomplete_bank_rejected_witness:
  "on_press (KeyCode (Some (CHR ''j''))) synth_init = Inr ([No_bank_selected], synth_init) \<and>
   on_press_with bank_scales_unfilled (KeyCode (Some (CHR ''K'')))
      (synth_init\<lparr>current_bank := Some (CHR ''w'')\<rparr>) =
     Inr ([Bank_not_populated (CHR ''w'')], synth_init\<lparr>current_bank := Some (CHR ''w'')\<rparr>)"
  using incomplete_bank_rejected [of "CHR ''j''" 0 synth_init bank_scales]
    incomplete_bank_rejected [of "CHR ''K''" 2 "synth_init\<lparr>current_bank := Some (CHR ''w'')\<rparr>"
      bank_scales_unfilled]
  by (simp add: on_press_def lower_def PLAYABLE_KEY_TO_DEGREE_def bank_scales_unfilled_def
      synth_init_def holding_def)

text \<open>
  Claim C5. A key-down of a playable key that holds no note, resolving to the pitch
  \<open>midi\<close>: a voice for \<open>midi\<close> that is in the state \<open>release\<close> goes back to
  \<open>attack\<close> with every other field, so its envelope level, as it was; any voice for
  \<open>midi\<close> that exists keeps its level; a fresh voice with level 0 is made only when
  there is none.
\<close>

theorem reattack_preserves_level:
  assumes "PLAYABLE_KEY_TO_DEGREE (lower c) = Some d"
    and "current_bank st = Some b" and "banks b = Some scale" and "length scale = 7"
    and "\<not> holding st (lower c)"
    and "midi = scale ! d + current_octave_offset st * 12"
  shows "\<exists>st'. on_press_with banks (KeyCode (Some c)) st = Inr ([], st') \<and>
     (\<forall>n. map_of (active_notes st) midi = Some n \<and> env_state n = ''release'' \<longrightarrow>
          map_of (active_notes st') midi = Some (n\<lparr>env_state := ''attack''\<rparr>)) \<and>
     (\<forall>n. map_of (active_notes st) midi = Some n \<longrightarrow>
          (\<exists>n'. map_of (active_notes st') midi = Some n' \<and> env_level n' = env_level n)) \<and>
     (map_of (active_notes st) midi = None \<longrightarrow>
          map_of (active_notes st') midi = Some \<lparr>phase = 0, env_level = 0, env_state = ''attack''\<rparr>)"
  using on_press_playable [of c d st b banks scale] assms map_of_add_note_same [of "lower c" midi st]
  by auto

theorem reattack_preserves_level_witness:
  "\<exists>st'. on_press (KeyCode (Some (CHR ''j''))) synth_released_58 = Inr ([], st') \<and>
     map_of (active_notes st') 58 = Some \<lparr>phase = 1, env_level = 1 / 2, env_state = ''attack''\<rparr>"
  using reattack_preserves_level [of "CHR ''j''" 0 synth_released_58 "CHR ''a''" bank_scales
      "[58, 60, 62, 63, 65, 67, 69]" 58]
  by (auto simp add: on_press_def lower_def PLAYABLE_KEY_TO_DEGREE_def bank_scales_def
      synth_released_58_def holding_def)

text \<open>
  Claim C10. \<open>add_note_for_key\<close> on a pitch that has a voice changes at most the
  \<open>env_state\<close> field of that voice (from \<open>release\<close> to \<open>attack\<close>): phase and level
  stay, the keys of \<open>active_notes\<close> and their order stay, and no other voice is
  touched. A voice with phase 0 and level 0 is appended only when the pitch has none.
\<close>

theorem reattack_touches_only_env_state:
  "(\<forall>n. map_of (active_notes st) midi = Some n \<longrightarrow>
       map_of (active_notes (add_note_for_key key_char midi st)) midi =
         Some (n\<lparr>env_state := (if env_state n = ''release'' then ''attack'' else env_state n)\<rparr>) \<and>
       map fst (active_notes (add_note_for_key key_char midi st)) = map fst (active_notes st)) \<and>
   (map_of (active_notes st) midi = None \<longrightarrow>
       active_notes (add_note_for_key key_char midi st) =
         active_notes st @ [(midi, \<lparr>phase = 0, env_level = 0, env_state = ''attack''\<rparr>)]) \<and>
   (\<forall>m. m \<noteq> midi \<longrightarrow>
       map_of (active_notes (add_note_for_key key_char midi st)) m = map_of (active_notes st) m)"
  using map_of_add_note_same [of key_char midi st] map_of_add_note_other [of _ midi key_char st]
    keys_add_note_present [of st midi _ key_char]
  by (auto simp add: add_note_for_key_def Let_def)

theorem reattack_touches_only_env_state_witness:
  "map_of (active_notes (add_note_for_key (CHR ''j'') 58 synth_released_58)) 58 =
     Some \<lparr>phase = 1, env_level = 1 / 2, env_state = ''attack''\<rparr> \<and>
   active_notes (add_note_for_key (CHR ''j'') 60 synth_released_58) =
     [(58, \<lparr>phase = 1, env_level = 1 / 2, env_state = ''release''\<rparr>),
      (60, \<lparr>phase = 0, env_level = 0, env_state = ''attack''\<rparr>)] \<and>
   map_of (active_notes (add_note_for_key (CHR ''j'') 60 synth_released_58)) 58 =
     Some \<lparr>phase = 1, env_level = 1 / 2, env_state = ''release''\<rparr>"
  using reattack_touches_only_env_state [of synth_released_58 58 "CHR ''j''"]
    reattack_touches_only_env_state [of synth_released_58 60 "CHR ''j''"]
  by (simp add: synth_released_58_def)



































lemma wayDown_press_keeps_index:
  "wayDown_on_press k st = Inr st' \<Longrightarrow> index (instruments st' name) = index (instruments st name)"
  by (auto simp add: wayDown_on_press_def wayDown_start_note_def Let_def
      split: key.splits option.splits if_splits sum.splits)

text \<open>
  Claim C3, amended. In \<^verbatim>\<open>wayDown.py\<close> a key-up of a pressed instrument stops the
  voice at once (\<open>active_freqs\<close> is \<open>None\<close>, the phases are emptied) and moves the
  cursor forward by exactly one, modulo the length of the arrangement; a key-down
  never moves it. In \<^verbatim>\<open>afterlife.py\<close> a key-up that empties the held-key set stops
  the voice at once and leaves the cursor where it is: there the cursor moves forward
  by one, modulo the length, on every key-down of a key that is not held.
\<close>

theorem cursor_advance_edges:
  "(wayDown_KEYMAP ch = Some name \<and> is_pressed (instruments wst name) \<and>
      inst_notes (instruments wst name) \<noteq> [] \<longrightarrow>
      (\<exists>wst'. wayDown_on_release (KeyCode (Some ch)) wst = Inr wst' \<and>
         active_freqs wst' name = None \<and> phases wst' name = [] \<and>
         \<not> is_pressed (instruments wst' name) \<and>
         index (instruments wst' name) =
           (index (instruments wst name) + 1) mod length (inst_notes (instruments wst name)))) \<and>
   (wayDown_on_press k wst = Inr wst1 \<longrightarrow>
      index (instruments wst1 name) = index (instruments wst name)) \<and>
   (afterlife_KEYMAP ch = Some name \<and> held_keys (instruments ast name) - {ch} = {} \<longrightarrow>
      (\<exists>ast'. afterlife_on_release (KeyCode (Some ch)) ast = Inr ast' \<and>
         active_freqs ast' name = None \<and> phases ast' name = [] \<and>
         held_keys (instruments ast' name) = {} \<and>
         index (instruments ast' name) = index (instruments ast name))) \<and>
   (afterlife_KEYMAP ch = Some name \<and> ch \<notin> held_keys (instruments ast name) \<and>
      afterlife_on_press (KeyCode (Some ch)) ast = Inr ast1 \<longrightarrow>
      index (instruments ast1 name) =
        (index (instruments ast name) + 1) mod length (inst_notes (instruments ast name)))"
  using wayDown_press_keeps_index [of k wst wst1 name]
  by (auto simp add: wayDown_on_release_def wayDown_stop_note_def afterlife_on_release_def
      afterlife_stop_note_def afterlife_on_press_def afterlife_start_note_def Let_def
      split: if_splits sum.splits)

theorem cursor_advance_edges_witness:
  "(\<exists>w1 w2. wayDown_on_press (KeyCode (Some (CHR ''a''))) wayDown_init = Inr w1 \<and>
      index (instruments w1 Snowman) = 0 \<and>
      wayDown_on_release (KeyCode (Some (CHR ''a''))) w1 = Inr w2 \<and>
      active_freqs w2 Snowman = None \<and> index (instruments w2 Snowman) = 1) \<and>
   (\<exists>a2. afterlife_on_release (KeyCode (Some (CHR ''e''))) afterlife_held_e = Inr a2 \<and>
      active_freqs a2 Snowman = None \<and> index (instruments a2 Snowman) = 1) \<and>
   (\<exists>a1. afterlife_on_press (KeyCode (Some (CHR ''e''))) afterlife_init = Inr a1 \<and>
      index (instruments a1 Snowman) = 1)"
proof -
  let ?A = "KeyCode (Some (CHR ''a''))" and ?E = "KeyCode (Some (CHR ''e''))"
  obtain w1 where w: "wayDown_on_press ?A wayDown_init = Inr w1"
    and w': "is_pressed (instruments w1 Snowman)" "length (inst_notes (instruments w1 Snowman)) = 6"
    by (simp add: wayDown_on_press_def wayDown_KEYMAP_def wayDown_start_note_def wayDown_init_def
        wayDown_notes_of_def wayDown_NOTES_SNOWMAN_def NOTE_FREQUENCIES_def Let_def)
  obtain a1 where a: "afterlife_on_press ?E afterlife_init = Inr a1"
    by (simp add: afterlife_on_press_def afterlife_KEYMAP_def afterlife_start_note_def
        afterlife_init_def afterlife_notes_of_def afterlife_NOTES_SNOWMAN_def
        NOTE_FREQUENCIES_def Let_def)
  have km: "wayDown_KEYMAP (CHR ''a'') = Some Snowman" "afterlife_KEYMAP (CHR ''e'') = Some Snowman"
    by (simp_all add: wayDown_KEYMAP_def afterlife_KEYMAP_def)
  have i0: "index (instruments wayDown_init Snowman) = 0"
    "index (instruments afterlife_init Snowman) = 0"
    "length (inst_notes (instruments afterlife_init Snowman)) = 53"
    "CHR ''e'' \<notin> held_keys (instruments afterlife_init Snowman)"
    by (simp_all add: wayDown_init_def afterlife_init_def afterlife_notes_of_def
        afterlife_NOTES_SNOWMAN_def)
  have h: "held_keys (instruments afterlife_held_e Snowman) - {CHR ''e''} = {}"
    "index (instruments afterlife_held_e Snowman) = 1"
    by (simp_all add: afterlife_held_e_def)
  from cursor_advance_edges [of "CHR ''a''" Snowman wayDown_init ?A w1
      afterlife_init afterlife_init] w i0
  have w0: "index (instruments w1 Snowman) = 0" by simp
  from cursor_advance_edges [of "CHR ''a''" Snowman w1 ?A w1
      afterlife_init afterlife_init] km w' w0
  have A: "\<exists>w2. wayDown_on_release ?A w1 = Inr w2 \<and>
      active_freqs w2 Snowman = None \<and> index (instruments w2 Snowman) = 1"
    by auto
  from cursor_advance_edges [of "CHR ''e''" Snowman wayDown_init ?E w1
      afterlife_held_e a1] km h
  have B: "\<exists>a2. afterlife_on_release ?E afterlife_held_e = Inr a2 \<and>
      active_freqs a2 Snowman = None \<and> index (instruments a2 Snowman) = 1"
    by auto
  from cursor_advance_edges [of "CHR ''e''" Snowman wayDown_init ?E w1
      afterlife_init a1] km a i0
  have C: "index (instruments a1 Snowman) = 1" by simp
  from A w w0 have A': "\<exists>w1 w2. wayDown_on_press ?A wayDown_init = Inr w1 \<and>
      index (instruments w1 Snowman) = 0 \<and> wayDown_on_release ?A w1 = Inr w2 \<and>
      active_freqs w2 Snowman = None \<and> index (instruments w2 Snowman) = 1"
    by auto
  from C a have C': "\<exists>a1. afterlife_on_press ?E afterlife_init = Inr a1 \<and>
      index (instruments a1 Snowman) = 1"
    by auto
  from A' B C' show ?thesis by (intro conjI)
qed

text \<open>
  Claim C3 as stated fails in \<^verbatim>\<open>afterlife.py\<close>: the key-down of \<open>e\<close> moves the
  cursor of the snowman from 0 to 1, and the key-up that empties its held-key set
  leaves it at 1, not at 2.
\<close>

theorem afterlife_cursor_counterexample:
  "afterlife_on_press (KeyCode (Some (CHR ''e''))) afterlife_init = Inr afterlife_held_e \<and>
   index (instruments afterlife_init Snowman) = 0 \<and>
   index (instruments afterlife_held_e Snowman) = 1 \<and>
   held_keys (instruments afterlife_held_e Snowman) = {CHR ''e''} \<and>
   length (inst_notes (instruments afterlife_held_e Snowman)) = 53 \<and>
   (case afterlife_on_release (KeyCode (Some (CHR ''e''))) afterlife_held_e of
      Inl e \<Rightarrow> False
    | Inr st' \<Rightarrow> held_keys (instruments st' Snowman) = {} \<and> active_freqs st' Snowman = None \<and>
        index (instruments st' Snowman) = 1 \<and>
        index (instruments st' Snowman) \<noteq>
          (index (instruments afterlife_held_e Snowman) + 1)
            mod length (inst_notes (instruments afterlife_held_e Snowman)))"
  by (simp add: afterlife_on_press_def afterlife_on_release_def afterlife_KEYMAP_def
      afterlife_start_note_def afterlife_stop_note_def afterlife_init_def afterlife_held_e_def
      afterlife_notes_of_def afterlife_NOTES_SNOWMAN_def NOTE_FREQUENCIES_def Let_def fun_eq_iff)

section \<open>Properties of the performance mode: rendering\<close>

lemma clip_unit: "0 \<le> clip x 0 1 \<and> clip x 0 1 \<le> 1"
  by (simp add: clip_def)

lemma length_arange [simp]: "length (arange n) = n"
  by (simp add: arange_def)

lemma arange_nonempty [simp]: "arange n = [] \<longleftrightarrow> n = 0"
  by (simp add: arange_def)

lemma last_map_arange: "0 < n \<Longrightarrow> last (map f (arange n)) = f (real (n - 1))"
  by (simp add: arange_def last_map last_upt)

lemma nth_map_arange: "i < n \<Longrightarrow> map f (arange n) ! i = f (real i)"
  by (simp add: arange_def)

lemma envelope_length: "length (fst (envelope a r frames n)) = frames"
  by (simp add: envelope_def Let_def)

lemma envelope_vec_unit:
  assumes "0 \<le> env_level n" "env_level n \<le> 1" "x \<in> set (fst (envelope a r frames n))"
  shows "0 \<le> x \<and> x \<le> 1"
  using assms clip_unit
  by (auto simp add: envelope_def Let_def split: if_splits)

lemma last_clip_unit:
  "0 < frames \<Longrightarrow> 0 \<le> last (map (\<lambda>i. clip (g i) 0 1) (arange frames)) \<and>
     last (map (\<lambda>i. clip (g i) 0 1) (arange frames)) \<le> 1"
  using clip_unit by (simp add: last_map_arange)

lemma envelope_level_unit:
  assumes "0 < frames" "0 \<le> env_level n" "env_level n \<le> 1"
  shows "0 \<le> fst (snd (envelope a r frames n)) \<and> fst (snd (envelope a r frames n)) \<le> 1"
  using assms last_clip_unit [OF assms(1)]
  by (simp add: envelope_def Let_def)

lemma render_note_Inr:
  "render_note a r frames midi n = Inr (wave, n', rm) \<Longrightarrow>
     0 < frames \<and> env_level n' = fst (snd (envelope a r frames n)) \<and>
     env_state n' = fst (snd (snd (envelope a r frames n))) \<and>
     rm = snd (snd (snd (envelope a r frames n)))"
  by (auto simp add: render_note_def Let_def split: if_splits prod.splits)

lemma render_notes_levels:
  "render_notes a r frames xs = Inr (sig, notes', rm) \<Longrightarrow> levels_ok xs \<Longrightarrow> levels_ok notes'"
proof (induction xs arbitrary: sig notes' rm)
  case Nil
  then show ?case by (simp add: levels_ok_def)
next
  case (Cons x xs)
  obtain midi n where x: "x = (midi, n)" by (cases x)
  from Cons.prems(1) x obtain wave n' b sig0 notes0 rm0
    where rn: "render_note a r frames midi n = Inr (wave, n', b)"
      and rs: "render_notes a r frames xs = Inr (sig0, notes0, rm0)"
      and eq: "notes' = (midi, n') # notes0"
    by (auto split: sum.splits prod.splits)
  from Cons.prems(2) x have ok: "0 \<le> env_level n" "env_level n \<le> 1" "levels_ok xs"
    by (simp_all add: levels_ok_def)
  from render_note_Inr [OF rn] envelope_level_unit [of frames n a r] ok
  have "0 \<le> env_level n' \<and> env_level n' \<le> 1" by simp
  with Cons.IH [OF rs ok(3)] eq show ?case by (simp add: levels_ok_def)
qed

lemma levels_ok_delete: "levels_ok xs \<Longrightarrow> levels_ok (AList.delete k xs)"
  by (induction xs) (auto simp add: levels_ok_def)

lemma levels_ok_foldl_delete:
  "levels_ok xs \<Longrightarrow> levels_ok (foldl (\<lambda>notes midi. AList.delete midi notes) xs ks)"
  by (induction ks arbitrary: xs) (simp_all add: levels_ok_delete)

lemma levels_ok_map_entry:
  "levels_ok xs \<Longrightarrow> (\<And>v. env_level (f v) = env_level v) \<Longrightarrow> levels_ok (AList.map_entry k f xs)"
  by (induction xs) (auto simp add: levels_ok_def)

lemma levels_ok_foldl_map_entry:
  "levels_ok xs \<Longrightarrow> (\<And>v. env_level (f v) = env_level v) \<Longrightarrow>
   levels_ok (foldl (\<lambda>notes midi. AList.map_entry midi f notes) xs ks)"
  by (induction ks arbitrary: xs) (simp_all add: levels_ok_map_entry)

lemma levels_ok_add_note: "levels_ok (active_notes st) \<Longrightarrow> levels_ok (active_notes (add_note_for_key ch midi st))"
  by (auto simp add: add_note_for_key_def Let_def levels_ok_map_entry split: option.splits)
     (simp add: levels_ok_def)

lemma levels_ok_release:
  "levels_ok (active_notes st) \<Longrightarrow> levels_ok (active_notes (release_notes_for_key ch st))"
  by (simp add: release_notes_for_key_def Let_def levels_ok_foldl_map_entry)

lemma levels_ok_on_press:
  "on_press_with banks k st = Inr (fb, st1) \<Longrightarrow> levels_ok (active_notes st) \<Longrightarrow>
   levels_ok (active_notes st1)"
  by (auto simp add: on_press_with_def Let_def levels_ok_add_note
      split: key.splits option.splits if_splits)

lemma levels_ok_on_release:
  "on_release k st = Inr st2 \<Longrightarrow> levels_ok (active_notes st) \<Longrightarrow> levels_ok (active_notes st2)"
  by (auto simp add: on_release_def Let_def levels_ok_release
      split: key.splits option.splits if_splits)

lemma levels_ok_audio_callback:
  "audio_callback_with a r frames st = Inr (out, st3) \<Longrightarrow> levels_ok (active_notes st) \<Longrightarrow>
   levels_ok (active_notes st3)"
  by (auto simp add: audio_callback_with_def Let_def levels_ok_foldl_delete
      split: if_splits sum.splits prod.splits dest: render_notes_levels)


lemma render_note_eq:
  assumes "0 < frames"
  shows "render_note a r frames midi n =
    Inr (map2 (*)
           (map (\<lambda>p. sin p + 0.3 * sin (2 * p))
              (map (\<lambda>ti. phase n + 2 * pi * midi_to_freq midi * ti)
                 (map (\<lambda>i. i / SAMPLE_RATE) (arange frames))))
           (fst (envelope a r frames n)),
         \<lparr>phase = py_mod (phase n + 2 * pi * midi_to_freq midi * real frames / SAMPLE_RATE) (2 * pi),
          env_level = fst (snd (envelope a r frames n)),
          env_state = fst (snd (snd (envelope a r frames n)))\<rparr>,
         snd (snd (snd (envelope a r frames n))))"
proof -
  have r: "real (frames - 1) = real frames - 1"
    using assms by (simp add: of_nat_diff)
  have e: "phase n + 2 * pi * midi_to_freq midi * (real (frames - 1) / SAMPLE_RATE)
      + 2 * pi * midi_to_freq midi / SAMPLE_RATE
      = phase n + 2 * pi * midi_to_freq midi * real frames / SAMPLE_RATE"
    unfolding r SAMPLE_RATE_def by (simp add: field_simps)
  have lp: "last (map (\<lambda>ti. phase n + 2 * pi * midi_to_freq midi * ti)
                (map (\<lambda>i. i / SAMPLE_RATE) (arange frames)))
      = phase n + 2 * pi * midi_to_freq midi * (real (frames - 1) / SAMPLE_RATE)"
    using assms by (simp add: last_map_arange o_def)
  show ?thesis
    unfolding render_note_def Let_def lp e
    using assms by (simp split: prod.splits)
qed

lemma render_notes_eq:
  assumes "0 < frames"
  shows "\<exists>sig. render_notes a r frames xs =
      Inr (sig,
           map (\<lambda>(m, n). (m, fst (snd (projr (render_note a r frames m n))))) xs,
           map fst (filter (\<lambda>(m, n). snd (snd (projr (render_note a r frames m n)))) xs)) \<and>
      length sig = frames"
proof (induction xs)
  case Nil
  show ?case by simp
next
  case (Cons x xs)
  obtain m n where x: "x = (m, n)" by (cases x)
  from Cons obtain sig where
    "render_notes a r frames xs =
      Inr (sig, map (\<lambda>(m, n). (m, fst (snd (projr (render_note a r frames m n))))) xs,
           map fst (filter (\<lambda>(m, n). snd (snd (projr (render_note a r frames m n)))) xs))"
    and "length sig = frames" by blast
  then show ?case
    using x by (simp add: render_note_eq [OF assms] envelope_length)
qed


lemma foldl_delete_filter:
  "foldl (\<lambda>notes midi. AList.delete midi notes) xs ks = filter (\<lambda>(k, v). k \<notin> set ks) xs"
proof (induction ks arbitrary: xs)
  case Nil
  show ?case by simp
next
  case (Cons k ks)
  have "filter (\<lambda>(k', v). k' \<notin> set ks) (AList.delete k xs) = filter (\<lambda>(k', v). k' \<notin> set (k # ks)) xs"
    by (induction xs) (auto simp add: AList.delete_eq)
  with Cons show ?case by simp
qed

lemma map_of_filter_keys:
  "map_of (filter (\<lambda>(k, v). k \<notin> S) xs) m = (if m \<in> S then None else map_of xs m)"
  by (induction xs) auto

lemma map_of_map_keyed:
  "map_of (map (\<lambda>(k, v). (k, f k v)) xs) m = map_option (f m) (map_of xs m)"
  by (induction xs) auto

lemma removed_keys:
  assumes "distinct (map fst xs)" "map_of xs m = Some n"
  shows "m \<in> set (map fst (filter (\<lambda>(k, v). P k v) xs)) \<longleftrightarrow> P m n"
proof
  assume "m \<in> set (map fst (filter (\<lambda>(k, v). P k v) xs))"
  then obtain v where "(m, v) \<in> set xs" "P m v" by auto
  with assms show "P m n" by (metis map_of_is_SomeI option.inject)
next
  assume "P m n"
  moreover from assms(2) have "(m, n) \<in> set xs" by (rule map_of_SomeD)
  ultimately show "m \<in> set (map fst (filter (\<lambda>(k, v). P k v) xs))" by force
qed

lemma audio_callback_lookup:
  assumes "0 < frames" "distinct (map fst (active_notes st))" "map_of (active_notes st) midi = Some n"
  shows "\<exists>out st'. audio_callback_with a r frames st = Inr (out, st') \<and> length out = frames \<and>
     map_of (active_notes st') midi =
       (if snd (snd (snd (envelope a r frames n))) then None
        else Some \<lparr>phase = py_mod (phase n + 2 * pi * midi_to_freq midi * real frames / SAMPLE_RATE) (2 * pi),
               env_level = fst (snd (envelope a r frames n)),
               env_state = fst (snd (snd (envelope a r frames n)))\<rparr>)"
proof -
  from assms(3) have ne: "active_notes st \<noteq> []" by auto
  from render_notes_eq [OF assms(1), of a r "active_notes st"] obtain sig where
    rs: "render_notes a r frames (active_notes st) =
      Inr (sig, map (\<lambda>(m, n). (m, fst (snd (projr (render_note a r frames m n))))) (active_notes st),
           map fst (filter (\<lambda>(m, n). snd (snd (projr (render_note a r frames m n)))) (active_notes st)))"
    and len: "length sig = frames" by blast
  have rm: "midi \<in> set (map fst (filter (\<lambda>(m, n). snd (snd (projr (render_note a r frames m n)))) (active_notes st)))
      \<longleftrightarrow> snd (snd (snd (envelope a r frames n)))"
    using removed_keys [OF assms(2,3), of "\<lambda>m n. snd (snd (projr (render_note a r frames m n)))"]
    by (simp add: render_note_eq [OF assms(1)])
  show ?thesis
    using ne rs len rm assms(3)
    by (simp add: audio_callback_with_def Let_def foldl_delete_filter map_of_filter_keys
        map_of_map_keyed render_note_eq [OF assms(1)] del: set_map)
qed

lemma envelope_release:
  assumes "env_state n = ''release''"
  shows "envelope a r frames n =
     (map (\<lambda>i. clip (env_level n + (0 - env_level n) / of_int (max 1 (py_int (r * SAMPLE_RATE))) * i) 0 1)
        (arange frames),
      last (map (\<lambda>i. clip (env_level n + (0 - env_level n) / of_int (max 1 (py_int (r * SAMPLE_RATE))) * i) 0 1)
        (arange frames)),
      ''release'',
      last (map (\<lambda>i. clip (env_level n + (0 - env_level n) / of_int (max 1 (py_int (r * SAMPLE_RATE))) * i) 0 1)
        (arange frames)) \<le> 0.001)"
  using assms by (simp add: envelope_def Let_def)

text \<open>
  One block of a voice in the state \<open>release\<close>, for \<open>frames > 0\<close>, with \<open>L\<close> the level
  stored when the block starts and \<open>total = max 1 (int (release_time * SAMPLE_RATE))\<close>:
  sample \<open>i\<close> of the envelope is \<open>e i = clip (L + (0 - L) / total * i) 0 1\<close>. The
  level written back is the last sample \<open>e (frames - 1)\<close>; the voice is put on the
  removal list exactly when that sample is at most 0.001, and then it is gone from
  the store when the callback returns.
\<close>

lemma release_ramp_and_removal:
  assumes "0 < frames" and "distinct (map fst (active_notes st))"
    and "map_of (active_notes st) midi = Some n" and "env_state n = ''release''"
    and "e = (\<lambda>i. clip (env_level n
            + (0 - env_level n) / of_int (max 1 (py_int (release_time * SAMPLE_RATE))) * real i) 0 1)"
  shows "fst (envelope attack_time release_time frames n) = map e [0..<frames] \<and>
    (\<exists>wave n'. render_note attack_time release_time frames midi n
                  = Inr (wave, n', e (frames - 1) \<le> 0.001) \<and>
        env_level n' = e (frames - 1) \<and> env_state n' = ''release'') \<and>
    (\<exists>out st'. audio_callback_with attack_time release_time frames st = Inr (out, st') \<and>
       map_of (active_notes st') midi =
         (if e (frames - 1) \<le> 0.001 then None
          else Some \<lparr>phase = py_mod (phase n + 2 * pi * midi_to_freq midi * real frames / SAMPLE_RATE) (2 * pi),
                 env_level = e (frames - 1), env_state = ''release''\<rparr>))"
proof -
  have l: "last (map (\<lambda>i. clip (env_level n + (0 - env_level n)
        / of_int (max 1 (py_int (release_time * SAMPLE_RATE))) * i) 0 1) (arange frames)) = e (frames - 1)"
    using assms(1,5) by (simp add: last_map_arange)
  have 1: "fst (envelope attack_time release_time frames n) = map e [0..<frames]"
    using assms(5) by (simp add: envelope_release [OF assms(4)] arange_def)
  have 2: "\<exists>wave n'. render_note attack_time release_time frames midi n
                  = Inr (wave, n', e (frames - 1) \<le> 0.001) \<and>
        env_level n' = e (frames - 1) \<and> env_state n' = ''release''"
    using l by (simp add: render_note_eq [OF assms(1)] envelope_release [OF assms(4)])
  from audio_callback_lookup [OF assms(1,2,3), of attack_time release_time] l
  have 3: "\<exists>out st'. audio_callback_with attack_time release_time frames st = Inr (out, st') \<and>
       map_of (active_notes st') midi =
         (if e (frames - 1) \<le> 0.001 then None
          else Some \<lparr>phase = py_mod (phase n + 2 * pi * midi_to_freq midi * real frames / SAMPLE_RATE) (2 * pi),
                 env_level = e (frames - 1), env_state = ''release''\<rparr>)"
    by (auto simp add: envelope_release [OF assms(4)])
  from 1 2 3 show ?thesis by blast
qed


text \<open>
  The level written back is never set to 0: from level 0.001 a block of 256 samples
  ends at \<open>13 / 14700\<close>, the voice is put on the removal list with that level, and the
  callback drops it.
\<close>

lemma release_level_written_back_unclamped:
  "(case render_note ATTACK_TIME RELEASE_TIME 256 69
           \<lparr>phase = 0, env_level = 1 / 1000, env_state = ''release''\<rparr> of
      Inl err \<Rightarrow> False
    | Inr (wave, n', remove) \<Rightarrow> remove \<and> env_level n' = 13 / 14700 \<and> env_level n' \<noteq> 0) \<and>
   (case audio_callback 256 synth_fading_69 of
      Inl err \<Rightarrow> False
    | Inr (out, st') \<Rightarrow> active_notes st' = [])"
proof -
  have "audio_callback 256 synth_fading_69 = Inr (x, y) \<Longrightarrow> active_notes y = []" for x y
    using render_notes_eq [of 256 ATTACK_TIME RELEASE_TIME "active_notes synth_fading_69"]
    by (auto simp add: audio_callback_def audio_callback_with_def synth_fading_69_def Let_def
        render_note_eq envelope_release last_map_arange RELEASE_TIME_def
        SAMPLE_RATE_def py_int_def clip_def)
  moreover obtain x y where "audio_callback 256 synth_fading_69 = Inr (x, y)"
    using audio_callback_lookup [of 256 synth_fading_69 69 _ ATTACK_TIME RELEASE_TIME]
    by (auto simp add: audio_callback_def synth_fading_69_def)
  ultimately show ?thesis
    by (simp add: render_note_eq envelope_release last_map_arange RELEASE_TIME_def
        SAMPLE_RATE_def py_int_def clip_def)
qed



text \<open>
  The slope of the release is taken anew from the stored level in every block, and
  the level stored is that of the block's last sample. A block of 256 samples
  therefore multiplies the level by \<open>1 - 255 / 2205 = 130 / 147\<close>, whatever the level:
  the release is a geometric decay whose length depends on the block size.
\<close>

lemma single_release_block:
  assumes "active_notes st = [(m, \<lparr>phase = p, env_level = L, env_state = ''release''\<rparr>)]"
    and "0 \<le> L" and "L \<le> 1" and "1 / 1000 < L * (130 / 147)"
  shows "\<exists>out p'. audio_callback 256 st =
     Inr (out, st\<lparr>active_notes := [(m, \<lparr>phase = p', env_level = L * (130 / 147), env_state = ''release''\<rparr>)]\<rparr>)"
proof -
  have c: "clip (130 * L / 147) 0 1 = 130 * L / 147"
    using assms(2,3) by (simp add: clip_def)
  have l: "last (map f (arange 256)) = f 255" for f :: "real \<Rightarrow> real"
    using last_map_arange [of 256 f] by simp
  have e: "envelope ATTACK_TIME RELEASE_TIME 256 \<lparr>phase = p, env_level = L, env_state = ''release''\<rparr>
      = (map (\<lambda>i. clip (L + (0 - L) / 2205 * i) 0 1) (arange 256), L * (130 / 147), ''release'', False)"
    using assms(4) by (simp add: envelope_release l c RELEASE_TIME_def SAMPLE_RATE_def py_int_def)
  have "\<exists>out. audio_callback 256 st =
     Inr (out, st\<lparr>active_notes := [(m, \<lparr>phase = py_mod (p + 2 * pi * midi_to_freq m * real 256 / SAMPLE_RATE) (2 * pi),
        env_level = L * (130 / 147), env_state = ''release''\<rparr>)]\<rparr>)"
    by (simp add: audio_callback_def audio_callback_with_def assms(1) Let_def render_note_eq e)
  then show ?thesis by blast
qed

lemma release_decay:
  assumes "active_notes st = [(m, \<lparr>phase = p, env_level = L, env_state = ''release''\<rparr>)]"
    and "0 \<le> L" and "L \<le> 1" and "1 / 1000 < L * (130 / 147) ^ k"
  shows "\<exists>p'. synth_run banks (replicate k (Render 256)) st =
     Inr (st\<lparr>active_notes := [(m, \<lparr>phase = p', env_level = L * (130 / 147) ^ k, env_state = ''release''\<rparr>)]\<rparr>)"
  using assms
proof (induction k arbitrary: st p L)
  case 0
  from "0.prems"(1) have "st = st\<lparr>active_notes :=
      [(m, \<lparr>phase = p, env_level = L * (130 / 147) ^ 0, env_state = ''release''\<rparr>)]\<rparr>"
    by simp
  then show ?case by auto
next
  case (Suc k)
  have q: "(130 / 147 :: real) ^ k \<le> 1" "0 \<le> (130 / 147 :: real) ^ k"
    by (simp_all add: power_le_one)
  from Suc.prems(4) have "1 / 1000 < (L * (130 / 147)) * (130 / 147) ^ k"
    by (simp add: mult.assoc)
  moreover have "(L * (130 / 147)) * (130 / 147) ^ k \<le> (L * (130 / 147)) * 1"
    using Suc.prems(2) q by (intro mult_left_mono) simp_all
  ultimately have big: "1 / 1000 < L * (130 / 147)" by simp
  from single_release_block [OF Suc.prems(1,2,3) big] obtain out p1 where
    b: "audio_callback 256 st =
      Inr (out, st\<lparr>active_notes := [(m, \<lparr>phase = p1, env_level = L * (130 / 147), env_state = ''release''\<rparr>)]\<rparr>)"
    by blast
  let ?st1 = "st\<lparr>active_notes := [(m, \<lparr>phase = p1, env_level = L * (130 / 147), env_state = ''release''\<rparr>)]\<rparr>"
  have "\<exists>p'. synth_run banks (replicate k (Render 256)) ?st1 =
     Inr (?st1\<lparr>active_notes := [(m, \<lparr>phase = p', env_level = (L * (130 / 147)) * (130 / 147) ^ k,
        env_state = ''release''\<rparr>)]\<rparr>)"
  proof (rule Suc.IH)
    show "active_notes ?st1 = [(m, \<lparr>phase = p1, env_level = L * (130 / 147), env_state = ''release''\<rparr>)]"
      by simp
    show "0 \<le> L * (130 / 147)" using Suc.prems(2) by simp
    show "L * (130 / 147) \<le> 1" using Suc.prems(2,3) by simp
    show "1 / 1000 < L * (130 / 147) * (130 / 147) ^ k"
      using Suc.prems(4) by (simp add: mult.assoc)
  qed
  then show ?case
    by (simp add: synth_step_def b mult.assoc)
qed

text \<open>
  Claim C6. The level should ramp linearly from its current value to 0 over
  \<open>RELEASE_TIME\<close> seconds, which is 2205 samples, and the voice should leave the store
  in the block in which the level reaches 0.001. It does not: a voice released at
  level 1 and rendered in blocks of \<open>BLOCK_SIZE = 256\<close> samples is still in the store
  after 9 blocks, which is 2304 samples, in the state \<open>release\<close> at level
  \<open>(130 / 147) ^ 9\<close>, above 0.33.
\<close>

theorem release_outlasts_release_time:
  "(case synth_run bank_scales (replicate 9 (Render BLOCK_SIZE)) synth_just_released of
      Inl err \<Rightarrow> False
    | Inr st' \<Rightarrow>
        (case map_of (active_notes st') 58 of
           None \<Rightarrow> False
         | Some n \<Rightarrow> env_state n = ''release'' \<and> env_level n = (130 / 147) ^ 9 \<and>
             33 / 100 < env_level n)) \<and>
   RELEASE_TIME * SAMPLE_RATE < real (9 * BLOCK_SIZE)"
proof -
  have a: "active_notes synth_just_released = [(58, \<lparr>phase = 0, env_level = 1, env_state = ''release''\<rparr>)]"
    by (simp add: synth_just_released_def)
  have "(1 / 1000 :: real) < 1 * (130 / 147) ^ 9" by (simp add: power_divide)
  from release_decay [OF a _ _ this, of bank_scales] obtain p' where
    "synth_run bank_scales (replicate 9 (Render 256)) synth_just_released =
     Inr (synth_just_released\<lparr>active_notes :=
        [(58, \<lparr>phase = p', env_level = 1 * (130 / 147) ^ 9, env_state = ''release''\<rparr>)]\<rparr>)"
    by auto
  then show ?thesis
    by (simp add: BLOCK_SIZE_def RELEASE_TIME_def SAMPLE_RATE_def power_divide)
qed

text \<open>
  Claim C4. The stored envelope levels start in \<open>[0, 1]\<close> (there is no voice) and
  stay there under every operation: a key-down, a key-up, and a render block of any
  size with any attack and release durations. Every per-sample envelope value that a
  block computes for a stored voice lies in \<open>[0, 1]\<close> as well, in each envelope state.
\<close>

theorem envelope_level_stays_in_unit_interval:
  "levels_ok (active_notes synth_init) \<and>
   (levels_ok (active_notes st) \<longrightarrow>
      (on_press_with banks k st = Inr (fb, st1) \<longrightarrow> levels_ok (active_notes st1)) \<and>
      (on_release k st = Inr st2 \<longrightarrow> levels_ok (active_notes st2)) \<and>
      (audio_callback_with attack_time release_time frames st = Inr (out, st3) \<longrightarrow>
         levels_ok (active_notes st3)) \<and>
      ((midi, n) \<in> set (active_notes st) \<longrightarrow>
         list_all (\<lambda>x. 0 \<le> x \<and> x \<le> 1) (fst (envelope attack_time release_time frames n))))"
proof -
  have "levels_ok (active_notes synth_init)"
    by (simp add: synth_init_def levels_ok_def)
  moreover have "list_all (\<lambda>x. 0 \<le> x \<and> x \<le> 1) (fst (envelope attack_time release_time frames n))"
    if "levels_ok (active_notes st)" "(midi, n) \<in> set (active_notes st)"
  proof -
    from that have "0 \<le> env_level n" "env_level n \<le> 1"
      by (auto simp add: levels_ok_def list_all_iff)
    then show ?thesis
      using envelope_vec_unit [of n _ attack_time release_time frames]
      by (simp add: list_all_iff)
  qed
  ultimately show ?thesis
    using levels_ok_on_press [of banks k st fb st1] levels_ok_on_release [of k st st2]
      levels_ok_audio_callback [of attack_time release_time frames st out st3]
    by blast
qed

theorem envelope_level_stays_in_unit_interval_witness:
  "levels_ok (active_notes synth_released_58) \<and>
   (\<exists>fb st1. on_press (KeyCode (Some (CHR ''j''))) synth_released_58 = Inr (fb, st1) \<and>
      levels_ok (active_notes st1)) \<and>
   (\<exists>st2. on_release (KeyCode (Some (CHR ''j''))) synth_released_58 = Inr st2 \<and>
      levels_ok (active_notes st2)) \<and>
   (\<exists>out st3. audio_callback 256 synth_released_58 = Inr (out, st3) \<and> length out = 256 \<and>
      levels_ok (active_notes st3)) \<and>
   list_all (\<lambda>x. 0 \<le> x \<and> x \<le> 1)
     (fst (envelope ATTACK_TIME RELEASE_TIME 256 \<lparr>phase = 1, env_level = 1 / 2, env_state = ''release''\<rparr>))"
proof -
  let ?K = "KeyCode (Some (CHR ''j''))"
  let ?v = "\<lparr>phase = 1, env_level = 1 / 2, env_state = ''release''\<rparr>"
  have ok: "levels_ok (active_notes synth_released_58)"
    and mem: "(58, ?v) \<in> set (active_notes synth_released_58)"
    by (simp_all add: synth_released_58_def levels_ok_def)
  obtain fb st1 where p: "on_press_with bank_scales ?K synth_released_58 = Inr (fb, st1)"
    by (simp add: on_press_with_def lower_def PLAYABLE_KEY_TO_DEGREE_def bank_scales_def
        synth_released_58_def holding_def BANK_KEYS_def OCTAVE_DOWN_KEY_def OCTAVE_UP_KEY_def
        Let_def)
  obtain st2 where r: "on_release ?K synth_released_58 = Inr st2"
    by (simp add: on_release_def Let_def lower_def PLAYABLE_KEY_TO_DEGREE_def)
  obtain out st3 where c: "audio_callback_with ATTACK_TIME RELEASE_TIME 256 synth_released_58 = Inr (out, st3)"
    and l: "length out = 256"
    using audio_callback_lookup [of 256 synth_released_58 58 ?v ATTACK_TIME RELEASE_TIME]
    by (auto simp add: synth_released_58_def)
  from envelope_level_stays_in_unit_interval
    [of synth_released_58 bank_scales ?K fb st1 st2 ATTACK_TIME RELEASE_TIME 256 out st3 58 ?v]
    ok mem p r c
  have "levels_ok (active_notes st1)" "levels_ok (active_notes st2)" "levels_ok (active_notes st3)"
    "list_all (\<lambda>x. 0 \<le> x \<and> x \<le> 1) (fst (envelope ATTACK_TIME RELEASE_TIME 256 ?v))"
    by simp_all
  with ok p r c l show ?thesis
    unfolding on_press_def audio_callback_def by (intro conjI exI) 
qed

lemma wave_bound: "\<bar>sin p + 0.3 * sin (2 * p)\<bar> \<le> (1.3::real)"
proof -
  have "\<bar>sin p\<bar> \<le> 1" "\<bar>sin (2 * p)\<bar> \<le> 1" by simp_all
  then show ?thesis by linarith
qed

lemma scaled_wave_bound:
  assumes "\<bar>w\<bar> \<le> 1.3" "0 \<le> e" "e \<le> (1::real)"
  shows "\<bar>w * e\<bar> \<le> 1.3"
proof -
  have "\<bar>w * e\<bar> = \<bar>w\<bar> * e" using assms(2) by (simp add: abs_mult)
  also have "\<dots> \<le> 1.3 * 1" using assms by (intro mult_mono) simp_all
  finally show ?thesis by simp
qed

lemma map2_mult_bound:
  assumes "w \<in> set (map2 (*) (map g ps) es)"
    and "\<And>p. \<bar>g p\<bar> \<le> (1.3::real)"
    and "\<And>e. e \<in> set es \<Longrightarrow> 0 \<le> e \<and> e \<le> 1"
  shows "\<bar>w\<bar> \<le> 1.3"
proof -
  from assms(1) obtain a e where ae: "(a, e) \<in> set (zip (map g ps) es)" "w = a * e"
    by auto
  from ae(1) have "a \<in> set (map g ps)" "e \<in> set es"
    by (auto elim: in_set_zipE)
  then obtain p where "a = g p" by auto
  with assms(2) [of p] assms(3) [OF \<open>e \<in> set es\<close>] ae(2) show ?thesis
    using scaled_wave_bound by blast
qed

lemma render_notes_bound:
  "render_notes a r frames xs = Inr (sig, notes', rm) \<Longrightarrow> levels_ok xs \<Longrightarrow>
   x \<in> set sig \<Longrightarrow> \<bar>x\<bar> \<le> 1.3 * real (length xs)"
proof (induction xs arbitrary: sig notes' rm x)
  case Nil
  then show ?case by auto
next
  case (Cons y ys)
  obtain midi n where y: "y = (midi, n)" by (cases y)
  from Cons.prems(1) y obtain wave n' b sig0 notes0 rm0
    where rn: "render_note a r frames midi n = Inr (wave, n', b)"
      and rs: "render_notes a r frames ys = Inr (sig0, notes0, rm0)"
      and eq: "sig = map2 (+) wave sig0"
    by (auto split: sum.splits prod.splits)
  from Cons.prems(2) y have ok: "0 \<le> env_level n" "env_level n \<le> 1" "levels_ok ys"
    by (simp_all add: levels_ok_def)
  from render_note_Inr [OF rn] have fr: "0 < frames" by simp
  from Cons.prems(3) eq obtain w s where ws: "w \<in> set wave" "s \<in> set sig0" "x = w + s"
    by (auto elim: in_set_zipE)
  define G where "G = (\<lambda>i. sin (phase n + 2 * pi * midi_to_freq midi * (i / SAMPLE_RATE))
      + 0.3 * sin (2 * (phase n + 2 * pi * midi_to_freq midi * (i / SAMPLE_RATE))))"
  have wv: "wave = map2 (*) (map G (arange frames)) (fst (envelope a r frames n))"
    using rn unfolding render_note_eq [OF fr] G_def by (simp add: o_def)
  have "\<bar>G i\<bar> \<le> 1.3" for i
    unfolding G_def by (rule wave_bound)
  with ws(1) envelope_vec_unit [OF ok(1,2)] have "\<bar>w\<bar> \<le> 1.3"
    using map2_mult_bound [of w G "arange frames" "fst (envelope a r frames n)"]
    unfolding wv by blast
  moreover from Cons.IH [OF rs ok(3) ws(2)] have "\<bar>s\<bar> \<le> 1.3 * real (length ys)" .
  ultimately have "\<bar>w + s\<bar> \<le> 1.3 + 1.3 * real (length ys)" by linarith
  then show ?case using ws(3) by (simp add: algebra_simps)
qed

lemma render_notes_length:
  "render_notes a r frames xs = Inr (sig, notes', rm) \<Longrightarrow> length notes' = length xs"
  by (induction xs arbitrary: sig notes' rm) (auto split: sum.splits prod.splits)


subsection \<open>The states that runs reach\<close>















subsection \<open>The mix of a block\<close>









text \<open>
  Without any bound on the block: a sample is at most 0.52 times the number of voices
  rendered over the number of voices left in the store (or over 1 when none is left).
\<close>

lemma synth_block_bound_general:
  assumes "audio_callback_with a r frames st = Inr (out, st')"
    and "levels_ok (active_notes st)" and "x \<in> set out"
  shows "\<bar>x\<bar> \<le> 0.52 * real (length (active_notes st)) / real (max 1 (length (active_notes st')))"
proof (cases "active_notes st = []")
  case True
  with assms show ?thesis by (auto simp add: audio_callback_with_def)
next
  case False
  with assms(1) obtain sig notes' rm where
    rs: "render_notes a r frames (active_notes st) = Inr (sig, notes', rm)"
    and out: "out = map (\<lambda>x. x * (MASTER_GAIN / real (max 1 (length (active_notes st'))))) sig"
    by (auto simp add: audio_callback_with_def Let_def split: sum.splits prod.splits)
  let ?N = "length (active_notes st)" and ?M = "max 1 (length (active_notes st'))"
  from assms(3) out obtain s where s: "s \<in> set sig" "x = s * (MASTER_GAIN / real ?M)"
    by auto
  from render_notes_bound [OF rs assms(2) s(1)] have b: "\<bar>s\<bar> \<le> 1.3 * real ?N" .
  have M: "0 < real ?M" by simp
  have "\<bar>x\<bar> = \<bar>s\<bar> * (0.4 / real ?M)"
    unfolding s(2) MASTER_GAIN_def abs_mult using M by simp
  also have "\<dots> \<le> (1.3 * real ?N) * (0.4 / real ?M)"
    using b M by (intro mult_right_mono) simp_all
  also have "\<dots> = 0.52 * real ?N / real ?M" by simp
  finally show ?thesis .
qed



text \<open>
  The bound on the block size is needed. A block longer than the release ramp of
  2205 samples, which the stream of the script never asks for, removes voices that
  were loud when it began, and the voices are counted after the removals: with three
  voices released at level 1 and at the crest of the wave, a block of 4096 samples
  removes all three, divides their mix by 1, and writes \<open>3 * 0.4 = 1.2\<close> first.
\<close>

lemma synth_long_block_exceeds_one:
  "(case audio_callback 4096 synth_three_released of
      Inl err \<Rightarrow> False
    | Inr (out, st') \<Rightarrow> out ! 0 = 6 / 5 \<and> \<not> out ! 0 \<le> 1 \<and> active_notes st' = [])"
proof -
  have l: "last (map f (arange 4096)) = f 4095" for f :: "real \<Rightarrow> real"
    using last_map_arange [of 4096 f] by simp
  have z: "map f (arange 4096) ! 0 = f 0" for f :: "real \<Rightarrow> real"
    using nth_map_arange [of 0 4096 f] by simp
  have e: "envelope ATTACK_TIME RELEASE_TIME 4096 \<lparr>phase = pi / 2, env_level = 1, env_state = ''release''\<rparr>
      = (map (\<lambda>i. clip (1 + (0 - 1) / 2205 * i) 0 1) (arange 4096), 0, ''release'', True)"
    by (simp add: envelope_release l RELEASE_TIME_def SAMPLE_RATE_def py_int_def clip_def)
  show ?thesis
    by (simp add: audio_callback_def audio_callback_with_def synth_three_released_def Let_def
        render_note_eq e z clip_def MASTER_GAIN_def)
qed

section \<open>Properties of the oscillators: phase carried across blocks\<close>

lemma py_mod_shift_neq:
  assumes "0 < d" "d < m"
  shows "py_mod x m \<noteq> py_mod (x + d) m"
proof
  assume "py_mod x m = py_mod (x + d) m"
  then have "d = m * of_int (\<lfloor>(x + d) / m\<rfloor> - \<lfloor>x / m\<rfloor>)"
    by (simp add: py_mod_def algebra_simps)
  then obtain j :: int where j: "d = m * of_int j" by blast
  from assms have m: "0 < m" by simp
  from j assms(1) m have "0 < (of_int j :: real)"
    by (simp add: zero_less_mult_iff)
  then have "1 \<le> j" by simp
  then have "(1::real) \<le> of_int j" by simp
  with m have "m * 1 \<le> m * of_int j" by (intro mult_left_mono) simp_all
  with j assms(2) show False by simp
qed

lemma py_mod_absorb:
  assumes "m \<noteq> 0"
  shows "py_mod (py_mod x m + y) m = py_mod (x + y) m"
proof -
  have "(py_mod x m + y) / m = (x + y) / m - of_int \<lfloor>x / m\<rfloor>"
    using assms by (simp add: py_mod_def field_simps)
  then have fl: "\<lfloor>(py_mod x m + y) / m\<rfloor> = \<lfloor>(x + y) / m\<rfloor> - \<lfloor>x / m\<rfloor>"
    by simp
  have "py_mod (py_mod x m + y) m = py_mod x m + y - m * of_int (\<lfloor>(x + y) / m\<rfloor> - \<lfloor>x / m\<rfloor>)"
    unfolding py_mod_def [of "py_mod x m + y"] fl ..
  also have "\<dots> = py_mod (x + y) m"
    by (simp add: py_mod_def algebra_simps)
  finally show ?thesis .
qed

lemma sin_py_mod: "sin (py_mod x (2 * pi) + y) = sin (x + y)"
proof -
  have "sin (py_mod x (2 * pi) + y) = sin ((x + y) - 2 * pi * of_int \<lfloor>x / (2 * pi)\<rfloor>)"
    by (simp add: py_mod_def algebra_simps)
  also have "\<dots> = sin (x + y)"
    by (simp add: sin_diff)
  finally show ?thesis .
qed

lemma map2_add_zeros: "length ys = n \<Longrightarrow> map2 (+) ys (replicate n (0::real)) = ys"
  by (induction ys arbitrary: n) auto

lemma wayDown_chord_single:
  assumes "0 < frames"
  shows "wayDown_chord frames [f] [p] =
     Inr (map (\<lambda>t. 0.22 * sin (p + (2 * pi * f) / SAMPLE_RATE * t)) (arange frames),
          [py_mod (p + (2 * pi * f) / SAMPLE_RATE * real (frames - 1)) (2 * pi)])"
  using assms by (simp add: Let_def last_map_arange map2_add_zeros o_def)

lemma wayDown_phase_one_short:
  assumes "0 < frames" and "0 < f" and "f < SAMPLE_RATE"
    and "wayDown_chord frames [f] [p] = Inr (tone, ps)"
  shows "ps = [py_mod (p + (2 * pi * f) / SAMPLE_RATE * real (frames - 1)) (2 * pi)] \<and>
     ps \<noteq> [py_mod (p + (2 * pi * f) / SAMPLE_RATE * real frames) (2 * pi)]"
proof -
  let ?inc = "(2 * pi * f) / SAMPLE_RATE"
  from assms(4) have ps: "ps = [py_mod (p + ?inc * real (frames - 1)) (2 * pi)]"
    unfolding wayDown_chord_single [OF assms(1)] by simp
  have "0 < ?inc" "?inc < 2 * pi"
    using assms(2,3) pi_gt_zero by (simp_all add: SAMPLE_RATE_def)
  from py_mod_shift_neq [OF this, of "p + ?inc * real (frames - 1)"]
  have ne: "py_mod (p + ?inc * real (frames - 1)) (2 * pi)
      \<noteq> py_mod (p + ?inc * real (frames - 1) + ?inc) (2 * pi)" .
  have "real (frames - 1) = real frames - 1"
    using assms(1) by (simp add: of_nat_diff)
  then have eq: "p + ?inc * real (frames - 1) + ?inc = p + ?inc * real frames"
    by (simp add: right_diff_distrib)
  from ne have "py_mod (p + ?inc * real (frames - 1)) (2 * pi)
      \<noteq> py_mod (p + ?inc * real frames) (2 * pi)"
    unfolding eq .
  then show ?thesis unfolding ps by simp
qed

text \<open>
  \<^verbatim>\<open>afterlife.py\<close> and \<^verbatim>\<open>synth.py\<close> store the old phase plus \<open>frames\<close> increments,
  modulo \<open>2 * pi\<close>; in \<^verbatim>\<open>afterlife.py\<close> two blocks of size \<open>B\<close> then give the
  samples and the phase of one block of size \<open>2 * B\<close>.
\<close>

lemma afterlife_chord_single:
  "afterlife_chord frames [f] [p] =
     Inr (map (\<lambda>t. 0.22 * sin (p + (2 * pi * f) / SAMPLE_RATE * t)) (arange frames),
          [py_mod (p + (2 * pi * f) / SAMPLE_RATE * real frames) (2 * pi)])"
  by (simp add: Let_def map2_add_zeros)

lemma synth_phase_advance:
  assumes "render_note a r frames midi n = Inr (wave, n', rm)"
  shows "phase n' = py_mod (phase n + 2 * pi * midi_to_freq midi * real frames / SAMPLE_RATE) (2 * pi)"
  using assms render_note_Inr [OF assms] by (auto simp add: render_note_eq)

lemma arange_double: "arange (2 * B) = arange B @ map (\<lambda>t. real B + t) (arange B)"
proof -
  have "[0..<2 * B] = [0..<B] @ [B..<B + B]"
    using upt_add_eq_append [of 0 B B] by (simp add: mult_2)
  moreover have "[B..<B + B] = map (\<lambda>i. i + B) [0..<B]"
    using map_add_upt [of B B] by simp
  moreover have "map real (map (\<lambda>i. i + B) [0..<B]) = map (\<lambda>t. real B + t) (map real [0..<B])"
    by (simp add: o_def add.commute)
  ultimately show ?thesis
    by (simp add: arange_def)
qed

lemma afterlife_two_blocks:
  assumes "afterlife_chord B [f] [p] = Inr (w1, ps1)"
    and "afterlife_chord B [f] ps1 = Inr (w2, ps2)"
  shows "afterlife_chord (2 * B) [f] [p] = Inr (w1 @ w2, ps2)"
proof -
  let ?inc = "(2 * pi * f) / SAMPLE_RATE"
  from assms(1) have w1: "w1 = map (\<lambda>t. 0.22 * sin (p + ?inc * t)) (arange B)"
    and ps1: "ps1 = [py_mod (p + ?inc * real B) (2 * pi)]"
    unfolding afterlife_chord_single by simp_all
  from assms(2) have w2: "w2 = map (\<lambda>t. 0.22 * sin (py_mod (p + ?inc * real B) (2 * pi) + ?inc * t)) (arange B)"
    and ps2: "ps2 = [py_mod (py_mod (p + ?inc * real B) (2 * pi) + ?inc * real B) (2 * pi)]"
    unfolding ps1 afterlife_chord_single by simp_all
  have w2': "w2 = map (\<lambda>t. 0.22 * sin (p + ?inc * (real B + t))) (arange B)"
    unfolding w2 sin_py_mod by (simp add: algebra_simps add_divide_distrib)
  have ps2': "ps2 = [py_mod (p + ?inc * real (2 * B)) (2 * pi)]"
    unfolding ps2 py_mod_absorb [of "2 * pi", simplified]
    by (simp add: algebra_simps add_divide_distrib)
  show ?thesis
    unfolding afterlife_chord_single arange_double w1 w2' ps2' by (simp add: o_def)
qed

text \<open>
  Claim C1. The phase stored back after a block should be the old phase plus
  \<open>frames\<close> increments of \<open>2 * pi * frequency / sample_rate\<close>, modulo \<open>2 * pi\<close>.
  \<^verbatim>\<open>wayDown.py\<close> stores the phase of the block's last sample instead, which is one
  increment short: with A4 (440 Hz) held from phase 0, a block of 512 samples stores
  the phase after 511 increments, and that differs from the phase after 512. The
  next block therefore starts by repeating a sample, and two blocks of size \<open>B\<close> do
  not continue as one block of size \<open>2 * B\<close> does.
\<close>

theorem wayDown_phase_lags_one_sample:
  "(case wayDown_audio_callback 512 wayDown_held_semicolon of
      Inl err \<Rightarrow> False
    | Inr (out, st') \<Rightarrow>
        phases st' Reindeer = [py_mod (0 + (2 * pi * 440) / SAMPLE_RATE * 511) (2 * pi)]) \<and>
   py_mod (0 + (2 * pi * 440) / SAMPLE_RATE * 511) (2 * pi)
     \<noteq> py_mod (0 + (2 * pi * 440) / SAMPLE_RATE * 512) (2 * pi)"
proof -
  have c: "wayDown_chord 512 [440] [0] =
      Inr (map (\<lambda>t. 0.22 * sin (0 + (2 * pi * 440) / SAMPLE_RATE * t)) (arange 512),
           [py_mod (0 + (2 * pi * 440) / SAMPLE_RATE * 511) (2 * pi)])"
    using wayDown_chord_single [of 512 440 0] by simp
  have 1: "(case wayDown_audio_callback 512 wayDown_held_semicolon of
      Inl err \<Rightarrow> False
    | Inr (out, st') \<Rightarrow>
        phases st' Reindeer = [py_mod (0 + (2 * pi * 440) / SAMPLE_RATE * 511) (2 * pi)])"
    unfolding wayDown_audio_callback_def wayDown_held_semicolon_def
    by (simp add: c del: wayDown_chord.simps)
  have "0 < (2 * pi * 440) / SAMPLE_RATE" "(2 * pi * 440) / SAMPLE_RATE < 2 * pi"
    using pi_gt_zero by (simp_all add: SAMPLE_RATE_def)
  from py_mod_shift_neq [OF this, of "0 + (2 * pi * 440) / SAMPLE_RATE * 511"]
  have 2: "py_mod (0 + (2 * pi * 440) / SAMPLE_RATE * 511) (2 * pi)
     \<noteq> py_mod (0 + (2 * pi * 440) / SAMPLE_RATE * 512) (2 * pi)"
    by (simp add: algebra_simps)
  from 1 2 show ?thesis by (rule conjI)
qed

end
